theory Spec2Isabelle
  imports Main "HOL-Library.Sublist"
begin

section \<open>Text\<close>

text \<open>
  Source text is a list of characters. A character is one code unit of the JavaScript
  string, restricted to the range 0..255; the templates and every pattern of the
  analyzer are ASCII.
\<close>

text \<open>\<^verbatim>\<open>s.includes(w)\<close>: \<open>w\<close> occurs in \<open>s\<close> at some position.\<close>

fun str_includes :: "string \<Rightarrow> string \<Rightarrow> bool" where
  "str_includes [] w = (w = [])"
| "str_includes (x # xs) w = (prefix w (x # xs) \<or> str_includes xs w)"

text \<open>\<^verbatim>\<open>s.startsWith(w)\<close>.\<close>

definition startsWith :: "string \<Rightarrow> string \<Rightarrow> bool" where
  "startsWith s w = prefix w s"

section \<open>Regular expressions\<close>

text \<open>
  The fragment of JavaScript regular expressions that the analyzer uses: character
  classes, sequence, ordered alternation, greedy and lazy repetition of a character
  class, and one capturing group. Every quantified atom of the source's patterns is a
  character class, so repetition takes a class and not a sub-expression.
\<close>

datatype regex =
    Chr "char \<Rightarrow> bool"
  | Eps
  | Seq regex regex
  | Alt regex regex
  | Star "char \<Rightarrow> bool"
  | LazyStar "char \<Rightarrow> bool"
  | Group regex

text \<open>
  The backtracking matcher works on a stack of what is still to be matched, the
  continuation. \<open>EndGroup s0\<close> closes the capturing group that was opened when the
  input was \<open>s0\<close>.
\<close>

datatype frame = Re regex | EndGroup string

fun frame_weight :: "frame \<Rightarrow> nat" where
  "frame_weight (Re r) = 2 * size r + 1"
| "frame_weight (EndGroup s0) = 1"

text \<open>
  \<open>rmatch k s c\<close> matches the continuation \<open>k\<close> at the start of \<open>s\<close>, with \<open>c\<close> the
  capture so far, and returns the input left over and the capture of the first match
  in backtracking order: the left alternative before the right one, the longest
  repetition first for a greedy star and the shortest first for a lazy one.
\<close>

function rmatch :: "frame list \<Rightarrow> string \<Rightarrow> string option \<Rightarrow> (string \<times> string option) option" where
  "rmatch [] s c = Some (s, c)"
| "rmatch (Re (Chr p) # k) s c =
     (case s of [] \<Rightarrow> None | x # xs \<Rightarrow> if p x then rmatch k xs c else None)"
| "rmatch (Re Eps # k) s c = rmatch k s c"
| "rmatch (Re (Seq a b) # k) s c = rmatch (Re a # Re b # k) s c"
| "rmatch (Re (Alt a b) # k) s c =
     (case rmatch (Re a # k) s c of Some r \<Rightarrow> Some r | None \<Rightarrow> rmatch (Re b # k) s c)"
| "rmatch (Re (Star p) # k) s c =
     (case s of
        [] \<Rightarrow> rmatch k s c
      | x # xs \<Rightarrow>
          if p x then (case rmatch (Re (Star p) # k) xs c of Some r \<Rightarrow> Some r | None \<Rightarrow> rmatch k s c)
          else rmatch k s c)"
| "rmatch (Re (LazyStar p) # k) s c =
     (case rmatch k s c of
        Some r \<Rightarrow> Some r
      | None \<Rightarrow> (case s of [] \<Rightarrow> None | x # xs \<Rightarrow> if p x then rmatch (Re (LazyStar p) # k) xs c else None))"
| "rmatch (Re (Group a) # k) s c = rmatch (Re a # EndGroup s # k) s c"
| "rmatch (EndGroup s0 # k) s c = rmatch k s (Some (take (length s0 - length s) s0))"
  by pat_completeness auto
termination
  by (relation "measures [\<lambda>(k, s, c). length s, \<lambda>(k, s, c). sum_list (map frame_weight k)]") auto

text \<open>A literal word; with the \<^verbatim>\<open>i\<close> flag each ASCII letter matches in both cases.\<close>

fun lit :: "string \<Rightarrow> regex" where
  "lit [] = Eps"
| "lit (c # cs) = Seq (Chr (\<lambda>x. x = c)) (lit cs)"

definition lower_of :: "char \<Rightarrow> char" where
  "lower_of c = (case map_of (zip ''ABCDEFGHIJKLMNOPQRSTUVWXYZ'' ''abcdefghijklmnopqrstuvwxyz'') c of
     Some l \<Rightarrow> l | None \<Rightarrow> c)"

fun lit_i :: "string \<Rightarrow> regex" where
  "lit_i [] = Eps"
| "lit_i (c # cs) = Seq (Chr (\<lambda>x. lower_of x = lower_of c)) (lit_i cs)"

definition Opt :: "regex \<Rightarrow> regex" where
  "Opt r = Alt r Eps"

definition Plus :: "(char \<Rightarrow> bool) \<Rightarrow> regex" where
  "Plus p = Seq (Chr p) (Star p)"

fun seqs :: "regex list \<Rightarrow> regex" where
  "seqs [] = Eps"
| "seqs [r] = r"
| "seqs (r # rs) = Seq r (seqs rs)"

text \<open>The classes \<^verbatim>\<open>\s\<close>, \<^verbatim>\<open>\d\<close> and \<^verbatim>\<open>[\s\S]\<close>.\<close>

definition cls_space :: "char \<Rightarrow> bool" where
  "cls_space c = (c \<in> set [CHR 0x09, CHR 0x0A, CHR 0x0B, CHR 0x0C, CHR 0x0D, CHR 0x20, CHR 0xA0])"

definition cls_digit :: "char \<Rightarrow> bool" where
  "cls_digit c = (c \<in> set ''0123456789'')"

definition cls_any :: "char \<Rightarrow> bool" where
  "cls_any c = True"

definition one_of :: "string \<Rightarrow> char \<Rightarrow> bool" where
  "one_of cs c = (c \<in> set cs)"

definition none_of :: "string \<Rightarrow> char \<Rightarrow> bool" where
  "none_of cs c = (c \<notin> set cs)"

text \<open>
  The result of \<^verbatim>\<open>s.match(re)\<close> without the \<^verbatim>\<open>g\<close> flag: the text before the
  match, the match (\<^verbatim>\<open>m[0]\<close>), the text after it and the first group (\<^verbatim>\<open>m[1]\<close>).
\<close>

record rx_match =
  before :: string
  matched :: string
  after :: string
  group1 :: "string option"

text \<open>The leftmost match: the start positions are tried from left to right.\<close>

fun rsearch_from :: "regex \<Rightarrow> string \<Rightarrow> string \<Rightarrow> rx_match option" where
  "rsearch_from r pre s =
     (case rmatch [Re r] s None of
        Some (rest, g) \<Rightarrow>
          Some \<lparr>before = rev pre, matched = take (length s - length rest) s, after = rest, group1 = g\<rparr>
      | None \<Rightarrow> (case s of [] \<Rightarrow> None | x # xs \<Rightarrow> rsearch_from r (x # pre) xs))"

definition rsearch :: "regex \<Rightarrow> string \<Rightarrow> rx_match option" where
  "rsearch r s = rsearch_from r [] s"

text \<open>
  \<^verbatim>\<open>s.match(re)\<close> with the \<^verbatim>\<open>g\<close> flag: the matched texts from left to right, each
  search starting where the match before ended (one character later after an empty
  match).
\<close>

function match_all :: "regex \<Rightarrow> string \<Rightarrow> string list" where
  "match_all r s =
     (case rmatch [Re r] s None of
        Some (rest, g) \<Rightarrow>
          if length rest < length s then take (length s - length rest) s # match_all r rest
          else (case s of [] \<Rightarrow> [[]] | x # xs \<Rightarrow> [] # match_all r xs)
      | None \<Rightarrow> (case s of [] \<Rightarrow> [] | x # xs \<Rightarrow> match_all r xs))"
  by pat_completeness auto
termination
  by (relation "measure (\<lambda>(r, s). length s)") auto

text \<open>
  \<^verbatim>\<open>s.replace(re, f)\<close> with the \<^verbatim>\<open>g\<close> flag: every match, from left to right, is
  replaced by \<open>f\<close> of it; the text between matches is kept.
\<close>

function replace_all_from :: "regex \<Rightarrow> (rx_match \<Rightarrow> string) \<Rightarrow> string \<Rightarrow> string \<Rightarrow> string" where
  "replace_all_from r f pre s =
     (case rmatch [Re r] s None of
        Some (rest, g) \<Rightarrow>
          (let m = \<lparr>before = rev pre, matched = take (length s - length rest) s, after = rest, group1 = g\<rparr>
           in if length rest < length s
              then f m @ replace_all_from r f (rev (matched m) @ pre) rest
              else (case s of [] \<Rightarrow> f m | x # xs \<Rightarrow> f m @ x # replace_all_from r f (x # pre) xs))
      | None \<Rightarrow> (case s of [] \<Rightarrow> [] | x # xs \<Rightarrow> x # replace_all_from r f (x # pre) xs))"
  by pat_completeness auto
termination
  by (relation "measure (\<lambda>(r, f, pre, s). length s)") auto

definition replace_all :: "regex \<Rightarrow> (rx_match \<Rightarrow> string) \<Rightarrow> string \<Rightarrow> string" where
  "replace_all r f s = replace_all_from r f [] s"

text \<open>\<^verbatim>\<open>s.replace(re, f)\<close> without the \<^verbatim>\<open>g\<close> flag: the leftmost match only.\<close>

definition replace_first :: "regex \<Rightarrow> (rx_match \<Rightarrow> string) \<Rightarrow> string \<Rightarrow> string" where
  "replace_first r f s =
     (case rsearch r s of None \<Rightarrow> s | Some m \<Rightarrow> before m @ f m @ after m)"

text \<open>
  A replacement given as a string is a pattern: \<^verbatim>\<open>$$\<close> stands for a dollar sign,
  \<^verbatim>\<open>$&\<close> for the match, \<^verbatim>\<open>$`\<close> for the text before it and \<^verbatim>\<open>$'\<close> for the text
  after it. The patterns that are replaced this way have no capturing group, so
  \<^verbatim>\<open>$1\<close> and the like stand for themselves.
\<close>

fun substitution :: "string \<Rightarrow> rx_match \<Rightarrow> string" where
  "substitution [] m = []"
| "substitution [c] m = [c]"
| "substitution (c # d # cs) m =
     (if c = CHR ''$'' then
        (if d = CHR ''$'' then CHR ''$'' # substitution cs m
         else if d = CHR ''&'' then matched m @ substitution cs m
         else if d = CHR ''`'' then before m @ substitution cs m
         else if d = CHR 0x27 then after m @ substitution cs m
         else c # substitution (d # cs) m)
      else c # substitution (d # cs) m)"

section \<open>Numbers and JSON\<close>

text \<open>
  A JavaScript number is modelled as an exact decimal: \<open>Dec m k\<close> is \<open>m / 10 ^ k\<close>,
  kept in lowest terms (\<open>k = 0\<close> or the last digit of \<open>m\<close> is not zero), and \<open>NaN\<close>.
  The rounding of a decimal literal to a binary double and the overflow to an
  infinity are not part of the model.
\<close>

datatype jsnum = Dec int nat | NaN

fun norm_dec :: "int \<Rightarrow> nat \<Rightarrow> jsnum" where
  "norm_dec m 0 = Dec m 0"
| "norm_dec m (Suc k) = (if m mod 10 = 0 then norm_dec (m div 10) k else Dec m (Suc k))"

text \<open>The number \<open>m * 10 ^ e\<close>.\<close>

definition make_dec :: "int \<Rightarrow> int \<Rightarrow> jsnum" where
  "make_dec m e = (if 0 \<le> e then Dec (m * 10 ^ nat e) 0 else norm_dec m (nat (- e)))"

definition digit_val :: "char \<Rightarrow> int" where
  "digit_val c =
     (case map_of [(CHR ''0'', 0), (CHR ''1'', 1), (CHR ''2'', 2), (CHR ''3'', 3), (CHR ''4'', 4),
                   (CHR ''5'', 5), (CHR ''6'', 6), (CHR ''7'', 7), (CHR ''8'', 8), (CHR ''9'', 9)] c of
        Some d \<Rightarrow> d | None \<Rightarrow> 0)"

definition digit_char :: "nat \<Rightarrow> char" where
  "digit_char d = ''0123456789'' ! d"

definition int_of_digits :: "string \<Rightarrow> int" where
  "int_of_digits ds = foldl (\<lambda>n c. 10 * n + digit_val c) 0 ds"

text \<open>The decimal digits of a number that is not negative.\<close>

function digits_of :: "int \<Rightarrow> string" where
  "digits_of i =
     (if i < 10 then [digit_char (nat i)] else digits_of (i div 10) @ [digit_char (nat (i mod 10))])"
  by pat_completeness auto
termination
  by (relation "measure nat") auto

declare digits_of.simps [simp del]

text \<open>
  \<^verbatim>\<open>parseInt(s)\<close> at its two call sites, where \<open>s\<close> is the capture of \<^verbatim>\<open>(\d+)\<close>: a
  non-empty string of decimal digits.
\<close>

definition parseInt :: "string \<Rightarrow> int" where
  "parseInt s = int_of_digits (takeWhile cls_digit s)"

text \<open>
  \<^verbatim>\<open>parseFloat(s)\<close> at its call site, where \<open>s\<close> is the capture of \<^verbatim>\<open>([0-9.]+)\<close>:
  the longest prefix that is a decimal literal (digits, then optionally a point and
  digits; or a point and at least one digit) is the value, and \<open>NaN\<close> when there is
  none. Signs, exponents and leading white space cannot occur in such a capture.
\<close>

definition parseFloat :: "string \<Rightarrow> jsnum" where
  "parseFloat s =
     (let ds = takeWhile cls_digit s; r = dropWhile cls_digit s;
          fs = (case r of [] \<Rightarrow> [] | c # cs \<Rightarrow> if c = CHR ''.'' then takeWhile cls_digit cs else [])
      in if ds = [] \<and> fs = [] then NaN
         else make_dec (int_of_digits (ds @ fs)) (- int (length fs)))"

text \<open>
  \<^verbatim>\<open>Number.prototype.toString\<close> in radix ten: plain digits while the decimal point
  is within the first 21 places, up to six zeros after \<^verbatim>\<open>0.\<close>, and the exponent
  notation beyond.
\<close>

definition num_to_string :: "jsnum \<Rightarrow> string" where
  "num_to_string x =
     (case x of
        NaN \<Rightarrow> ''NaN''
      | Dec m k \<Rightarrow>
          if m = 0 then ''0''
          else
            let sgn = (if m < 0 then ''-'' else []);
                all = digits_of \<bar>m\<bar>;
                n = int (length all) - int k;
                ds = rev (dropWhile (\<lambda>c. c = CHR ''0'') (rev all));
                kk = int (length ds)
            in sgn @
               (if kk \<le> n \<and> n \<le> 21 then ds @ replicate (nat (n - kk)) CHR ''0''
                else if 0 < n \<and> n \<le> 21 then take (nat n) ds @ ''.'' @ drop (nat n) ds
                else if - 6 < n \<and> n \<le> 0 then ''0.'' @ replicate (nat (- n)) CHR ''0'' @ ds
                else
                  let e = n - 1;
                      es = (if e < 0 then ''-'' else ''+'') @ digits_of \<bar>e\<bar>
                  in if kk = 1 then ds @ ''e'' @ es
                     else take 1 ds @ ''.'' @ drop 1 ds @ ''e'' @ es))"

text \<open>
  The values of \<^verbatim>\<open>JSON.parse\<close>. An object is its properties in enumeration order.
\<close>

datatype json =
    JNull
  | JBool bool
  | JNum jsnum
  | JStr string
  | JArr "json list"
  | JObj "(string \<times> json) list"

datatype error = SyntaxError

definition backslash :: char where
  "backslash = CHR 0x5C"

definition dquote :: char where
  "dquote = CHR 0x22"

definition squote :: char where
  "squote = CHR 0x27"

text \<open>
  Defining a property: an existing key keeps its place and takes the new value; a new
  key that is an array index (a canonical decimal below \<open>2^32 - 1\<close>) goes among the
  index keys in ascending order, which are enumerated first; any other new key goes
  last.
\<close>

definition is_array_index :: "string \<Rightarrow> bool" where
  "is_array_index k =
     (k \<noteq> [] \<and> list_all cls_digit k \<and> (k = ''0'' \<or> hd k \<noteq> CHR ''0'') \<and> int_of_digits k < 4294967295)"

fun insert_index :: "string \<Rightarrow> json \<Rightarrow> (string \<times> json) list \<Rightarrow> (string \<times> json) list" where
  "insert_index k v [] = [(k, v)]"
| "insert_index k v ((k', v') # ps) =
     (if is_array_index k' \<and> int_of_digits k' < int_of_digits k then (k', v') # insert_index k v ps
      else (k, v) # (k', v') # ps)"

definition obj_set :: "string \<Rightarrow> json \<Rightarrow> (string \<times> json) list \<Rightarrow> (string \<times> json) list" where
  "obj_set k v ps =
     (if k \<in> set (map fst ps) then map (\<lambda>(k', v'). if k' = k then (k', v) else (k', v')) ps
      else if is_array_index k then insert_index k v ps
      else ps @ [(k, v)])"

definition obj_of_members :: "(string \<times> json) list \<Rightarrow> (string \<times> json) list" where
  "obj_of_members ms = foldl (\<lambda>ps (k, v). obj_set k v ps) [] ms"

subsection \<open>JSON.parse\<close>

definition json_ws :: "char \<Rightarrow> bool" where
  "json_ws c = (c \<in> set [CHR 0x20, CHR 0x09, CHR 0x0A, CHR 0x0D])"

definition skip_ws :: "string \<Rightarrow> string" where
  "skip_ws s = dropWhile json_ws s"

definition hex_val :: "char \<Rightarrow> int option" where
  "hex_val c =
     (if cls_digit c then Some (digit_val c)
      else map_of [(CHR ''a'', 10), (CHR ''b'', 11), (CHR ''c'', 12), (CHR ''d'', 13), (CHR ''e'', 14),
                   (CHR ''f'', 15), (CHR ''A'', 10), (CHR ''B'', 11), (CHR ''C'', 12), (CHR ''D'', 13),
                   (CHR ''E'', 14), (CHR ''F'', 15)] c)"

text \<open>
  The four hexadecimal digits of a \<^verbatim>\<open>\u\<close> escape. A code unit above 255 is outside
  the text model, and the model rejects the escape.
\<close>

definition hex4 :: "string \<Rightarrow> (char \<times> string) option" where
  "hex4 s =
     (case s of
        a # b # c # d # rest \<Rightarrow>
          (case (hex_val a, hex_val b, hex_val c, hex_val d) of
             (Some x, Some y, Some z, Some w) \<Rightarrow>
               if x = 0 \<and> y = 0 then Some (char_of (16 * z + w), rest) else None
           | _ \<Rightarrow> None)
      | _ \<Rightarrow> None)"

definition json_escape :: "char \<Rightarrow> char option" where
  "json_escape e =
     map_of [(dquote, dquote), (backslash, backslash), (CHR ''/'', CHR ''/''),
             (CHR ''b'', CHR 0x08), (CHR ''f'', CHR 0x0C), (CHR ''n'', CHR 0x0A),
             (CHR ''r'', CHR 0x0D), (CHR ''t'', CHR 0x09)] e"

text \<open>The characters of a string literal after its opening quote, decoded.\<close>

fun json_string_body :: "string \<Rightarrow> (string \<times> string) option" where
  "json_string_body [] = None"
| "json_string_body (c # cs) =
     (if c = dquote then Some ([], cs)
      else if c = backslash then
        (case cs of
           [] \<Rightarrow> None
         | e # cs' \<Rightarrow>
             if e = CHR ''u'' then
               (case cs' of
                  h1 # h2 # h3 # h4 # rest \<Rightarrow>
                    (case hex4 [h1, h2, h3, h4] of
                       None \<Rightarrow> None
                     | Some (ch, _) \<Rightarrow>
                         (case json_string_body rest of
                            None \<Rightarrow> None
                          | Some (str, r) \<Rightarrow> Some (ch # str, r)))
                | _ \<Rightarrow> None)
             else
               (case json_escape e of
                  None \<Rightarrow> None
                | Some ch \<Rightarrow>
                    (case json_string_body cs' of
                       None \<Rightarrow> None
                     | Some (str, r) \<Rightarrow> Some (ch # str, r))))
      else if (of_char c :: int) < 32 then None
      else (case json_string_body cs of None \<Rightarrow> None | Some (str, r) \<Rightarrow> Some (c # str, r)))"

text \<open>
  A number literal: an optional minus, \<^verbatim>\<open>0\<close> or digits without a leading zero, an
  optional fraction and an optional exponent.
\<close>

definition json_number :: "string \<Rightarrow> (json \<times> string) option" where
  "json_number s =
     (let neg = (s \<noteq> [] \<and> hd s = CHR ''-'');
          s1 = (if neg then tl s else s);
          ds = (if s1 \<noteq> [] \<and> hd s1 = CHR ''0'' then ''0'' else takeWhile cls_digit s1);
          s2 = drop (length ds) s1;
          has_frac = (s2 \<noteq> [] \<and> hd s2 = CHR ''.'');
          fs = (if has_frac then takeWhile cls_digit (tl s2) else []);
          s3 = (if has_frac then drop (length fs) (tl s2) else s2);
          has_exp = (s3 \<noteq> [] \<and> hd s3 \<in> set ''eE'');
          s4 = (if has_exp then tl s3 else s3);
          eneg = (has_exp \<and> s4 \<noteq> [] \<and> hd s4 = CHR ''-'');
          s5 = (if has_exp \<and> s4 \<noteq> [] \<and> hd s4 \<in> set ''+-'' then tl s4 else s4);
          es = (if has_exp then takeWhile cls_digit s5 else []);
          s6 = (if has_exp then drop (length es) s5 else s3);
          m = int_of_digits (ds @ fs);
          e = int_of_digits es
      in if ds = [] \<or> (has_frac \<and> fs = []) \<or> (has_exp \<and> es = []) then None
         else Some (JNum (make_dec (if neg then - m else m)
                            ((if eneg then - e else e) - int (length fs))), s6))"

text \<open>
  The recursive descent over values, array elements and object members. The fuel
  bounds the recursion; every call is made after at least one character of the value
  at hand was read or for a later sibling, so the length of the input is enough.
\<close>

fun json_value :: "nat \<Rightarrow> string \<Rightarrow> (json \<times> string) option"
  and json_elements :: "nat \<Rightarrow> string \<Rightarrow> (json list \<times> string) option"
  and json_members :: "nat \<Rightarrow> string \<Rightarrow> ((string \<times> json) list \<times> string) option"
where
  "json_value 0 s = None"
| "json_value (Suc n) s =
     (case s of
        [] \<Rightarrow> None
      | c # cs \<Rightarrow>
          if c = CHR ''['' then
            (if prefix '']'' (skip_ws cs) then Some (JArr [], tl (skip_ws cs))
             else (case json_elements n (skip_ws cs) of
                     None \<Rightarrow> None
                   | Some (vs, r) \<Rightarrow> Some (JArr vs, r)))
          else if c = CHR ''{'' then
            (if prefix ''}'' (skip_ws cs) then Some (JObj [], tl (skip_ws cs))
             else (case json_members n (skip_ws cs) of
                     None \<Rightarrow> None
                   | Some (ms, r) \<Rightarrow> Some (JObj (obj_of_members ms), r)))
          else if c = dquote then
            (case json_string_body cs of None \<Rightarrow> None | Some (str, r) \<Rightarrow> Some (JStr str, r))
          else if prefix ''true'' s then Some (JBool True, drop 4 s)
          else if prefix ''false'' s then Some (JBool False, drop 5 s)
          else if prefix ''null'' s then Some (JNull, drop 4 s)
          else json_number s)"
| "json_elements 0 s = None"
| "json_elements (Suc n) s =
     (case json_value n s of
        None \<Rightarrow> None
      | Some (v, r) \<Rightarrow>
          if prefix '','' (skip_ws r) then
            (case json_elements n (skip_ws (tl (skip_ws r))) of
               None \<Rightarrow> None
             | Some (vs, r') \<Rightarrow> Some (v # vs, r'))
          else if prefix '']'' (skip_ws r) then Some ([v], tl (skip_ws r))
          else None)"
| "json_members 0 s = None"
| "json_members (Suc n) s =
     (case s of
        [] \<Rightarrow> None
      | c # cs \<Rightarrow>
          if c \<noteq> dquote then None
          else
            (case json_string_body cs of
               None \<Rightarrow> None
             | Some (key, r) \<Rightarrow>
                 if \<not> prefix '':'' (skip_ws r) then None
                 else
                   (case json_value n (skip_ws (tl (skip_ws r))) of
                      None \<Rightarrow> None
                    | Some (v, r') \<Rightarrow>
                        if prefix '','' (skip_ws r') then
                          (case json_members n (skip_ws (tl (skip_ws r'))) of
                             None \<Rightarrow> None
                           | Some (ms, r'') \<Rightarrow> Some ((key, v) # ms, r''))
                        else if prefix ''}'' (skip_ws r') then Some ([(key, v)], tl (skip_ws r'))
                        else None)))"

text \<open>
  \<^verbatim>\<open>JSON.parse(s)\<close>: one value with white space around it and nothing else; a
  \<^verbatim>\<open>SyntaxError\<close> otherwise.
\<close>

definition json_parse :: "string \<Rightarrow> error + json" where
  "json_parse s =
     (case json_value (Suc (length s)) (skip_ws s) of
        None \<Rightarrow> Inl SyntaxError
      | Some (v, r) \<Rightarrow> if skip_ws r = [] then Inr v else Inl SyntaxError)"

subsection \<open>JSON.stringify\<close>

definition hex_char :: "nat \<Rightarrow> char" where
  "hex_char n = ''0123456789abcdef'' ! n"

definition quote_char :: "char \<Rightarrow> string" where
  "quote_char c =
     (if c = dquote then [backslash, dquote]
      else if c = backslash then [backslash, backslash]
      else if c = CHR 0x08 then [backslash, CHR ''b'']
      else if c = CHR 0x0C then [backslash, CHR ''f'']
      else if c = CHR 0x0A then [backslash, CHR ''n'']
      else if c = CHR 0x0D then [backslash, CHR ''r'']
      else if c = CHR 0x09 then [backslash, CHR ''t'']
      else if (of_char c :: int) < 32 then
        [backslash, CHR ''u'', CHR ''0'', CHR ''0'', hex_char (nat ((of_char c :: int) div 16)),
         hex_char (nat ((of_char c :: int) mod 16))]
      else [c])"

definition json_quote :: "string \<Rightarrow> string" where
  "json_quote s = dquote # concat (map quote_char s) @ [dquote]"

fun join :: "string \<Rightarrow> string list \<Rightarrow> string" where
  "join sep [] = []"
| "join sep [x] = x"
| "join sep (x # y # ys) = x @ sep @ join sep (y # ys)"

text \<open>\<^verbatim>\<open>JSON.stringify(v)\<close> without indentation; a \<open>NaN\<close> is written \<^verbatim>\<open>null\<close>.\<close>

fun json_stringify :: "json \<Rightarrow> string" where
  "json_stringify JNull = ''null''"
| "json_stringify (JBool b) = (if b then ''true'' else ''false'')"
| "json_stringify (JNum x) = (if x = NaN then ''null'' else num_to_string x)"
| "json_stringify (JStr s) = json_quote s"
| "json_stringify (JArr vs) = ''['' @ join '','' (map json_stringify vs) @ '']''"
| "json_stringify (JObj ps) =
     ''{'' @ join '','' (map (\<lambda>(k, v). json_quote k @ '':'' @ json_stringify v) ps) @ ''}''"

section \<open>The graphical editor\<close>

text \<open>
  The descriptor that \<^verbatim>\<open>parseVisualizationData\<close> returns and the form edits:
  \<^verbatim>\<open>{ data, width, height, color }\<close>. Its optional \<^verbatim>\<open>type\<close> field is never
  written; the chart type lives in the editor's \<^verbatim>\<open>currentVisualizationType\<close>.
\<close>

record descriptor =
  data :: "json list"
  width :: int
  height :: int
  color :: string

text \<open>The fields of \<^verbatim>\<open>D3GraphicalEditor\<close> that the analyzer reads and writes.\<close>

record editor =
  source :: string
  parsedData :: descriptor
  currentVisualizationType :: string

definition record_of :: "string \<Rightarrow> int \<Rightarrow> json" where
  "record_of l v = JObj [(''label'', JStr l), (''value'', JNum (Dec v 0))]"

subsection \<open>The patterns of the analyzer\<close>

definition cls_quote :: "char \<Rightarrow> bool" where
  "cls_quote = one_of [dquote, squote]"

definition cls_colon_space :: "char \<Rightarrow> bool" where
  "cls_colon_space c = (c = CHR '':'' \<or> cls_space c)"

definition cls_quote3 :: "string" where
  "cls_quote3 = [squote, dquote, CHR ''`'']"

text \<open>\<^verbatim>\<open>/\{[^}]*\}/g\<close>\<close>

definition re_object :: regex where
  "re_object = seqs [lit ''{'', Star (none_of ''}''), lit ''}'']"

text \<open>\<^verbatim>\<open>/["']?label["']?\s*:\s*["']([^"']+)["']/\<close>\<close>

definition re_label :: regex where
  "re_label =
     seqs [Opt (Chr cls_quote), lit ''label'', Opt (Chr cls_quote), Star cls_space, lit '':'',
           Star cls_space, Chr cls_quote, Group (Plus (none_of [dquote, squote])), Chr cls_quote]"

text \<open>\<^verbatim>\<open>/["']?value["']?\s*:\s*([0-9.]+)/\<close>\<close>

definition re_value :: regex where
  "re_value =
     seqs [Opt (Chr cls_quote), lit ''value'', Opt (Chr cls_quote), Star cls_space, lit '':'',
           Star cls_space, Group (Plus (one_of ''0123456789.''))]"

text \<open>\<^verbatim>\<open>/width[:\s]*=?[:\s]*(\d+)/i\<close>\<close>

definition re_width :: regex where
  "re_width =
     seqs [lit_i ''width'', Star cls_colon_space, Opt (lit ''=''), Star cls_colon_space,
           Group (Plus cls_digit)]"

text \<open>\<^verbatim>\<open>/height[:\s]*=?[:\s]*(\d+)/i\<close>\<close>

definition re_height :: regex where
  "re_height =
     seqs [lit_i ''height'', Star cls_colon_space, Opt (lit ''=''), Star cls_colon_space,
           Group (Plus cls_digit)]"

text \<open>\<^verbatim>\<open>/(?:fill|stroke|color)[:\s]*['"`]([^'"`]+)['"`]/i\<close>\<close>

definition re_color :: regex where
  "re_color =
     seqs [Alt (lit_i ''fill'') (Alt (lit_i ''stroke'') (lit_i ''color'')), Star cls_colon_space,
           Chr (one_of cls_quote3), Group (Plus (none_of cls_quote3)), Chr (one_of cls_quote3)]"

text \<open>\<^verbatim>\<open>/(?:const|let|var)\s+data\s*=\s*(\[[\s\S]*?\]);?/\<close>\<close>

definition re_data_decl :: regex where
  "re_data_decl =
     seqs [Alt (lit ''const'') (Alt (lit ''let'') (lit ''var'')), Plus cls_space, lit ''data'',
           Star cls_space, lit ''='', Star cls_space,
           Group (seqs [lit ''['', LazyStar cls_any, lit '']'']), Opt (lit '';'')]"

text \<open>\<^verbatim>\<open>/(?:const|let|var)\s+(?:events|nodes|tasks|matrix)\s*=\s*(\[[\s\S]*?\]);?/\<close>\<close>

definition re_alias_decl :: regex where
  "re_alias_decl =
     seqs [Alt (lit ''const'') (Alt (lit ''let'') (lit ''var'')), Plus cls_space,
           Alt (lit ''events'') (Alt (lit ''nodes'') (Alt (lit ''tasks'') (lit ''matrix''))),
           Star cls_space, lit ''='', Star cls_space,
           Group (seqs [lit ''['', LazyStar cls_any, lit '']'']), Opt (lit '';'')]"

text \<open>\<^verbatim>\<open>/\.data\(\s*(\[[\s\S]*?\])\s*\)/\<close>\<close>

definition re_inline_data :: regex where
  "re_inline_data =
     seqs [lit ''.data('', Star cls_space, Group (seqs [lit ''['', LazyStar cls_any, lit '']'']),
           Star cls_space, lit '')'']"

subsection \<open>extractSimpleDataArray\<close>

text \<open>
  One \<^verbatim>\<open>{...}\<close> group of the permissive scan: \<^verbatim>\<open>JSON.parse\<close> of the group, and
  in its \<^verbatim>\<open>catch\<close> the label and value patterns; \<open>None\<close> when nothing is pushed.
\<close>

definition extract_group :: "string \<Rightarrow> json option" where
  "extract_group m =
     (case json_parse m of
        Inr obj \<Rightarrow> Some obj
      | Inl e \<Rightarrow>
          (case (rsearch re_label m, rsearch re_value m) of
             (Some labelMatch, Some valueMatch) \<Rightarrow>
               Some (JObj [(''label'', JStr (the (group1 labelMatch))),
                           (''value'', JNum (parseFloat (the (group1 valueMatch))))])
           | _ \<Rightarrow> None))"

text \<open>The loop over the groups, pushing to \<^verbatim>\<open>result\<close>.\<close>

fun extract_loop :: "json list \<Rightarrow> string list \<Rightarrow> json list" where
  "extract_loop result [] = result"
| "extract_loop result (m # ms) =
     (case extract_group m of
        Some obj \<Rightarrow> extract_loop (result @ [obj]) ms
      | None \<Rightarrow> extract_loop result ms)"

definition extractSimpleDataArray :: "string \<Rightarrow> json list" where
  "extractSimpleDataArray dataString = extract_loop [] (match_all re_object dataString)"

subsection \<open>parseVisualizationData\<close>

definition default_parsed :: descriptor where
  "default_parsed = \<lparr>data = [], width = 600, height = 400, color = ''steelblue''\<rparr>"

definition sample_data :: "json list" where
  "sample_data = [record_of ''A'' 30, record_of ''B'' 80, record_of ''C'' 45, record_of ''D'' 60]"

definition pie_sample_data :: "json list" where
  "pie_sample_data =
     [record_of ''Category A'' 30, record_of ''Category B'' 45, record_of ''Category C'' 25]"

text \<open>Lines 4120 to 4135: width, height and colour, each with its own pattern.\<close>

definition extract_style :: "string \<Rightarrow> descriptor \<Rightarrow> descriptor" where
  "extract_style code pd =
     (let pd1 = (case rsearch re_width code of
                   Some widthMatch \<Rightarrow> pd\<lparr>width := parseInt (the (group1 widthMatch))\<rparr>
                 | None \<Rightarrow> pd);
          pd2 = (case rsearch re_height code of
                   Some heightMatch \<Rightarrow> pd1\<lparr>height := parseInt (the (group1 heightMatch))\<rparr>
                 | None \<Rightarrow> pd1)
      in (case rsearch re_color code of
            Some colorMatch \<Rightarrow> pd2\<lparr>color := the (group1 colorMatch)\<rparr>
          | None \<Rightarrow> pd2))"

text \<open>
  Lines 4137 to 4164: the declaration of \<^verbatim>\<open>data\<close>, or else of one of the other
  conventional names; \<^verbatim>\<open>JSON.parse\<close> of the captured literal, and in its
  \<^verbatim>\<open>catch\<close> the permissive scan. The inner \<^verbatim>\<open>catch (e2)\<close> guards
  \<^verbatim>\<open>extractSimpleDataArray\<close>, which has no operation that throws.
\<close>

definition extract_declared :: "string \<Rightarrow> descriptor \<Rightarrow> descriptor" where
  "extract_declared code pd =
     (let dataMatches = (case rsearch re_data_decl code of
                           Some m \<Rightarrow> Some m
                         | None \<Rightarrow> rsearch re_alias_decl code)
      in (case dataMatches of
            None \<Rightarrow> pd
          | Some m \<Rightarrow>
              (case json_parse (the (group1 m)) of
                 Inr extractedData \<Rightarrow>
                   (case extractedData of
                      JArr xs \<Rightarrow> if length xs > 0 then pd\<lparr>data := xs\<rparr> else pd
                    | _ \<Rightarrow> pd)
               | Inl e \<Rightarrow>
                   (let simpleData = extractSimpleDataArray (the (group1 m))
                    in if length simpleData > 0 then pd\<lparr>data := simpleData\<rparr> else pd))))"

text \<open>Lines 4166 to 4187: a literal passed to \<^verbatim>\<open>.data(...)\<close>, when no data was found.\<close>

definition extract_inline :: "string \<Rightarrow> descriptor \<Rightarrow> descriptor" where
  "extract_inline code pd =
     (if length (data pd) = 0 then
        (case rsearch re_inline_data code of
           None \<Rightarrow> pd
         | Some inlineDataMatch \<Rightarrow>
             (case json_parse (the (group1 inlineDataMatch)) of
                Inr extractedData \<Rightarrow>
                  (case extractedData of JArr xs \<Rightarrow> pd\<lparr>data := xs\<rparr> | _ \<Rightarrow> pd)
              | Inl e \<Rightarrow>
                  (let simpleData = extractSimpleDataArray (the (group1 inlineDataMatch))
                   in if length simpleData > 0 then pd\<lparr>data := simpleData\<rparr> else pd)))
      else pd)"

text \<open>
  Lines 4189 to 4237: the cascade that sets \<^verbatim>\<open>currentVisualizationType\<close>. The
  conditions of its branches, in the order of the source:
\<close>

definition is_donut :: "string \<Rightarrow> bool" where
  "is_donut code =
     (str_includes code ''innerRadius'' \<and> (str_includes code ''d3.pie'' \<or> str_includes code ''.pie()''))"

definition is_pie :: "string \<Rightarrow> bool" where
  "is_pie code =
     (str_includes code ''d3.pie'' \<or> str_includes code ''.pie()''
      \<or> str_includes code ''arc()'' \<and> str_includes code ''pie'')"

definition is_histogram :: "string \<Rightarrow> bool" where
  "is_histogram code =
     (str_includes code ''d3.histogram'' \<or> str_includes code ''.histogram()''
      \<or> str_includes code ''bins'')"

definition is_heatmap :: "string \<Rightarrow> bool" where
  "is_heatmap code =
     (str_includes code ''heatmap'' \<or> (str_includes code ''rect'' \<and> str_includes code ''colorScale''))"

definition is_timeline :: "string \<Rightarrow> bool" where
  "is_timeline code =
     (str_includes code ''timeline'' \<or> str_includes code ''timeScale'' \<or> str_includes code ''events'')"

definition is_radar :: "string \<Rightarrow> bool" where
  "is_radar code =
     (str_includes code ''radar'' \<or> str_includes code ''angleScale''
      \<or> str_includes code ''radiusScale'')"

definition is_box_plot :: "string \<Rightarrow> bool" where
  "is_box_plot code =
     (str_includes code ''box'' \<and> str_includes code ''whisker'' \<or> str_includes code ''quartile'')"

definition is_bubble :: "string \<Rightarrow> bool" where
  "is_bubble code =
     (str_includes code ''bubble''
      \<or> (str_includes code ''circle'' \<and> str_includes code ''scale'' \<and> str_includes code ''radius''))"

definition is_stacked :: "string \<Rightarrow> bool" where
  "is_stacked code =
     (str_includes code ''stacked'' \<or> str_includes code ''stack()'' \<or> str_includes code ''d3.stack'')"

definition is_horizontal_bar :: "string \<Rightarrow> bool" where
  \<open>is_horizontal_bar code =
     (str_includes code ''scaleLinear'' \<and> str_includes code ''rect''
      \<and> str_includes code ''attr("x"'' \<and> \<not> str_includes code ''scaleBand'')\<close>

definition is_area :: "string \<Rightarrow> bool" where
  "is_area code =
     (str_includes code ''d3.area'' \<or> str_includes code ''.area()''
      \<or> (str_includes code ''area'' \<and> str_includes code ''y0'' \<and> str_includes code ''y1''))"

definition is_line :: "string \<Rightarrow> bool" where
  "is_line code =
     (str_includes code ''d3.line'' \<or> str_includes code ''.line()''
      \<or> (str_includes code ''line'' \<and> str_includes code ''curve''))"

definition is_bar :: "string \<Rightarrow> bool" where
  "is_bar code =
     (str_includes code ''scaleBand''
      \<or> (str_includes code ''rect'' \<and> str_includes code ''bandwidth'')
      \<or> str_includes code ''bar'')"

definition is_scatter :: "string \<Rightarrow> bool" where
  "is_scatter code =
     ((str_includes code ''circle'' \<and> str_includes code ''cx'' \<and> str_includes code ''cy'')
      \<or> str_includes code ''scatter'')"

text \<open>The \<^verbatim>\<open>else\<close> block: detection by the elements that are appended.\<close>

definition appends_rect :: "string \<Rightarrow> bool" where
  \<open>appends_rect code =
     (str_includes code ''append("rect")'' \<or> str_includes code ''append(\'rect\')'')\<close>

definition appends_circle :: "string \<Rightarrow> bool" where
  \<open>appends_circle code =
     (str_includes code ''append("circle")'' \<or> str_includes code ''append(\'circle\')'')\<close>

definition appends_path :: "string \<Rightarrow> bool" where
  \<open>appends_path code =
     (str_includes code ''append("path")'' \<or> str_includes code ''append(\'path\')'')\<close>

definition detect_by_element :: "string \<Rightarrow> string" where
  "detect_by_element code =
     (if appends_rect code then ''bar-chart''
      else if appends_circle code then ''scatter-plot''
      else if appends_path code then
        (if str_includes code ''stroke'' \<and> \<not> str_includes code ''fill'' then ''line-chart''
         else if str_includes code ''fill'' \<and> str_includes code ''opacity'' then ''area-chart''
         else ''line-chart'')
      else ''bar-chart'')"

definition detect_type :: "string \<Rightarrow> string" where
  "detect_type code =
     (if is_donut code then ''donut-chart''
      else if is_pie code then ''pie-chart''
      else if is_histogram code then ''histogram''
      else if is_heatmap code then ''heatmap''
      else if is_timeline code then ''timeline''
      else if is_radar code then ''radar''
      else if is_box_plot code then ''box-plot''
      else if is_bubble code then ''bubble-chart''
      else if is_stacked code then ''stacked-bar-chart''
      else if is_horizontal_bar code then ''horizontal-bar''
      else if is_area code then ''area-chart''
      else if is_line code then ''line-chart''
      else if is_bar code then ''bar-chart''
      else if is_scatter code then ''scatter-plot''
      else detect_by_element code)"

text \<open>Lines 4239 to 4255: sample data when there is still none.\<close>

definition fill_sample :: "string \<Rightarrow> descriptor \<Rightarrow> descriptor" where
  "fill_sample ty pd =
     (if length (data pd) = 0 then
        (if ty = ''pie-chart'' then pd\<lparr>data := pie_sample_data\<rparr> else pd\<lparr>data := sample_data\<rparr>)
      else pd)"

text \<open>
  The body of the \<^verbatim>\<open>try\<close> block: the descriptor it returns and the editor with the
  chart type it has set, or the exception that leaves it. Every \<^verbatim>\<open>JSON.parse\<close> of
  the block sits in a \<^verbatim>\<open>try\<close> of its own, which the extraction steps above have
  taken in.
\<close>

definition parse_try :: "editor \<Rightarrow> error + (descriptor \<times> editor)" where
  "parse_try ed =
     (let code = source ed;
          pd = extract_inline code (extract_declared code (extract_style code default_parsed));
          ty = detect_type code
      in Inr (fill_sample ty pd, ed\<lparr>currentVisualizationType := ty\<rparr>))"

text \<open>The \<^verbatim>\<open>catch\<close> block: the safe defaults.\<close>

definition parse_catch :: "error \<Rightarrow> descriptor" where
  "parse_catch e = \<lparr>data = sample_data, width = 600, height = 400, color = ''steelblue''\<rparr>"

definition parseVisualizationData :: "editor \<Rightarrow> descriptor \<times> editor" where
  "parseVisualizationData ed =
     (case parse_try ed of
        Inr res \<Rightarrow> res
      | Inl e \<Rightarrow> (parse_catch e, ed))"

text \<open>
  The editor as its constructor leaves it, and \<^verbatim>\<open>onOpen\<close>, which stores the
  descriptor of the source.
\<close>

definition new_editor :: "string \<Rightarrow> editor" where
  "new_editor src =
     \<lparr>source = src, parsedData = default_parsed, currentVisualizationType = ''bar-chart''\<rparr>"

definition onOpen :: "editor \<Rightarrow> editor" where
  "onOpen ed = (case parseVisualizationData ed of (pd, ed') \<Rightarrow> ed'\<lparr>parsedData := pd\<rparr>)"

section \<open>The templates\<close>

text \<open>
  The texts that \<^verbatim>\<open>getTemplates\<close> returns, one definition for each key, as the
  template literals of the source evaluate.
\<close>

definition tpl_basic :: string where
  \<open>tpl_basic = ''// Create an SVG element
const svg = d3.select(container)
  .append("svg")
  .attr("width", width)
  .attr("height", height);

// Add a circle
svg.append("circle")
  .attr("cx", width / 2)
  .attr("cy", height / 2)
  .attr("r", 50)
  .style("fill", utils.colors[0]);''\<close>

definition tpl_bar_chart :: string where
  \<open>tpl_bar_chart = ''const data = [
  {name: \'A\', value: 30},
  {name: \'B\', value: 80},
  {name: \'C\', value: 45},
  {name: \'D\', value: 60}
];

const margin = utils.margin();
const innerWidth = utils.innerWidth(width, margin);
const innerHeight = utils.innerHeight(height, margin);

const svg = d3.select(container)
  .append("svg")
  .attr("width", width)
  .attr("height", height);

const g = svg.append("g")
  .attr("transform", `translate(${margin.left},${margin.top})`);

const x = d3.scaleBand()
  .domain(data.map(d => d.name))
  .range([0, innerWidth])
  .padding(0.1);

const y = d3.scaleLinear()
  .domain([0, d3.max(data, d => d.value)])
  .range([innerHeight, 0]);

g.selectAll(".bar")
  .data(data)
  .enter().append("rect")
  .attr("class", "bar")
  .attr("x", d => x(d.name))
  .attr("y", d => y(d.value))
  .attr("width", x.bandwidth())
  .attr("height", d => innerHeight - y(d.value))
  .style("fill", utils.colors[0]);

// Add axes
g.append("g")
  .attr("transform", `translate(0,${innerHeight})`)
  .call(d3.axisBottom(x));

g.append("g")
  .call(d3.axisLeft(y));''\<close>

definition tpl_horizontal_bar :: string where
  \<open>tpl_horizontal_bar = ''const data = [
  {name: \'Product A\', value: 30},
  {name: \'Product B\', value: 80},
  {name: \'Product C\', value: 45},
  {name: \'Product D\', value: 60}
];

const margin = utils.margin(20, 50, 30, 100);
const innerWidth = utils.innerWidth(width, margin);
const innerHeight = utils.innerHeight(height, margin);

const svg = d3.select(container)
  .append("svg")
  .attr("width", width)
  .attr("height", height);

const g = svg.append("g")
  .attr("transform", `translate(${margin.left},${margin.top})`);

const x = d3.scaleLinear()
  .domain([0, d3.max(data, d => d.value)])
  .range([0, innerWidth]);

const y = d3.scaleBand()
  .domain(data.map(d => d.name))
  .range([0, innerHeight])
  .padding(0.1);

g.selectAll(".bar")
  .data(data)
  .enter().append("rect")
  .attr("class", "bar")
  .attr("x", 0)
  .attr("y", d => y(d.name))
  .attr("width", d => x(d.value))
  .attr("height", y.bandwidth())
  .style("fill", utils.colors[1]);

// Add axes
g.append("g")
  .attr("transform", `translate(0,${innerHeight})`)
  .call(d3.axisBottom(x));

g.append("g")
  .call(d3.axisLeft(y));''\<close>

definition tpl_scatter_plot :: string where
  \<open>tpl_scatter_plot = ''const data = d3.range(50).map(() => ({
  x: Math.random() * 100,
  y: Math.random() * 100
}));

const margin = utils.margin();
const innerWidth = utils.innerWidth(width, margin);
const innerHeight = utils.innerHeight(height, margin);

const svg = d3.select(container)
  .append("svg")
  .attr("width", width)
  .attr("height", height);

const g = svg.append("g")
  .attr("transform", `translate(${margin.left},${margin.top})`);

const x = d3.scaleLinear()
  .domain([0, 100])
  .range([0, innerWidth]);

const y = d3.scaleLinear()
  .domain([0, 100])
  .range([innerHeight, 0]);

g.selectAll(".dot")
  .data(data)
  .enter().append("circle")
  .attr("class", "dot")
  .attr("cx", d => x(d.x))
  .attr("cy", d => y(d.y))
  .attr("r", 4)
  .style("fill", utils.colors[1])
  .style("opacity", 0.7);

// Add axes
g.append("g")
  .attr("transform", `translate(0,${innerHeight})`)
  .call(d3.axisBottom(x));

g.append("g")
  .call(d3.axisLeft(y));''\<close>

definition tpl_line_chart :: string where
  \<open>tpl_line_chart = ''const data = d3.range(20).map(i => ({
  x: i,
  y: Math.sin(i * 0.5) * 50 + 50 + Math.random() * 20
}));

const margin = utils.margin();
const innerWidth = utils.innerWidth(width, margin);
const innerHeight = utils.innerHeight(height, margin);

const svg = d3.select(container)
  .append("svg")
  .attr("width", width)
  .attr("height", height);

const g = svg.append("g")
  .attr("transform", `translate(${margin.left},${margin.top})`);

const x = d3.scaleLinear()
  .domain(d3.extent(data, d => d.x))
  .range([0, innerWidth]);

const y = d3.scaleLinear()
  .domain(d3.extent(data, d => d.y))
  .range([innerHeight, 0]);

const line = d3.line()
  .x(d => x(d.x))
  .y(d => y(d.y))
  .curve(d3.curveMonotoneX);

g.append("path")
  .datum(data)
  .attr("fill", "none")
  .attr("stroke", utils.colors[2])
  .attr("stroke-width", 2)
  .attr("d", line);

// Add dots
g.selectAll(".dot")
  .data(data)
  .enter().append("circle")
  .attr("class", "dot")
  .attr("cx", d => x(d.x))
  .attr("cy", d => y(d.y))
  .attr("r", 3)
  .style("fill", utils.colors[2]);

// Add axes
g.append("g")
  .attr("transform", `translate(0,${innerHeight})`)
  .call(d3.axisBottom(x));

g.append("g")
  .call(d3.axisLeft(y));''\<close>

definition tpl_area_chart :: string where
  \<open>tpl_area_chart = ''const data = d3.range(30).map(i => ({
  x: i,
  y: Math.sin(i * 0.3) * 30 + 50 + Math.random() * 15
}));

const margin = utils.margin();
const innerWidth = utils.innerWidth(width, margin);
const innerHeight = utils.innerHeight(height, margin);

const svg = d3.select(container)
  .append("svg")
  .attr("width", width)
  .attr("height", height);

const g = svg.append("g")
  .attr("transform", `translate(${margin.left},${margin.top})`);

const x = d3.scaleLinear()
  .domain(d3.extent(data, d => d.x))
  .range([0, innerWidth]);

const y = d3.scaleLinear()
  .domain(d3.extent(data, d => d.y))
  .range([innerHeight, 0]);

const area = d3.area()
  .x(d => x(d.x))
  .y0(innerHeight)
  .y1(d => y(d.y))
  .curve(d3.curveMonotoneX);

g.append("path")
  .datum(data)
  .attr("fill", utils.colors[3])
  .attr("fill-opacity", 0.7)
  .attr("d", area);

const line = d3.line()
  .x(d => x(d.x))
  .y(d => y(d.y))
  .curve(d3.curveMonotoneX);

g.append("path")
  .datum(data)
  .attr("fill", "none")
  .attr("stroke", utils.colors[3])
  .attr("stroke-width", 2)
  .attr("d", line);

// Add axes
g.append("g")
  .attr("transform", `translate(0,${innerHeight})`)
  .call(d3.axisBottom(x));

g.append("g")
  .call(d3.axisLeft(y));''\<close>

definition tpl_bubble_chart :: string where
  \<open>tpl_bubble_chart = ''const data = d3.range(30).map(() => ({
  x: Math.random() * 100,
  y: Math.random() * 100,
  size: Math.random() * 50 + 10,
  category: Math.floor(Math.random() * 4)
}));

const margin = utils.margin();
const innerWidth = utils.innerWidth(width, margin);
const innerHeight = utils.innerHeight(height, margin);

const svg = d3.select(container)
  .append("svg")
  .attr("width", width)
  .attr("height", height);

const g = svg.append("g")
  .attr("transform", `translate(${margin.left},${margin.top})`);

const x = d3.scaleLinear()
  .domain([0, 100])
  .range([0, innerWidth]);

const y = d3.scaleLinear()
  .domain([0, 100])
  .range([innerHeight, 0]);

const sizeScale = d3.scaleSqrt()
  .domain([0, d3.max(data, d => d.size)])
  .range([3, 20]);

g.selectAll(".bubble")
  .data(data)
  .enter().append("circle")
  .attr("class", "bubble")
  .attr("cx", d => x(d.x))
  .attr("cy", d => y(d.y))
  .attr("r", d => sizeScale(d.size))
  .style("fill", d => utils.colors[d.category])
  .style("opacity", 0.7)
  .style("stroke", "white")
  .style("stroke-width", 1);

// Add axes
g.append("g")
  .attr("transform", `translate(0,${innerHeight})`)
  .call(d3.axisBottom(x));

g.append("g")
  .call(d3.axisLeft(y));''\<close>

definition tpl_pie_chart :: string where
  \<open>tpl_pie_chart = ''const data = [
  {label: \'Category A\', value: 30},
  {label: \'Category B\', value: 25},
  {label: \'Category C\', value: 20},
  {label: \'Category D\', value: 15},
  {label: \'Category E\', value: 10}
];

const radius = Math.min(width, height) / 2 - 20;

const svg = d3.select(container)
  .append("svg")
  .attr("width", width)
  .attr("height", height);

const g = svg.append("g")
  .attr("transform", `translate(${width/2},${height/2})`);

const pie = d3.pie()
  .value(d => d.value)
  .sort(null);

const arc = d3.arc()
  .innerRadius(0)
  .outerRadius(radius);

const arcs = g.selectAll(".arc")
  .data(pie(data))
  .enter().append("g")
  .attr("class", "arc");

arcs.append("path")
  .attr("d", arc)
  .style("fill", (d, i) => utils.colors[i]);

arcs.append("text")
  .attr("transform", d => `translate(${arc.centroid(d)})`)
  .attr("text-anchor", "middle")
  .style("font-size", "12px")
  .text(d => d.data.label);''\<close>

definition tpl_donut_chart :: string where
  \<open>tpl_donut_chart = ''const data = [
  {label: \'Desktop\', value: 45},
  {label: \'Mobile\', value: 35},
  {label: \'Tablet\', value: 20}
];

const radius = Math.min(width, height) / 2 - 20;
const innerRadius = radius * 0.6;

const svg = d3.select(container)
  .append("svg")
  .attr("width", width)
  .attr("height", height);

const g = svg.append("g")
  .attr("transform", `translate(${width/2},${height/2})`);

const pie = d3.pie()
  .value(d => d.value)
  .sort(null);

const arc = d3.arc()
  .innerRadius(innerRadius)
  .outerRadius(radius);

const arcs = g.selectAll(".arc")
  .data(pie(data))
  .enter().append("g")
  .attr("class", "arc");

arcs.append("path")
  .attr("d", arc)
  .style("fill", (d, i) => utils.colors[i]);

arcs.append("text")
  .attr("transform", d => `translate(${arc.centroid(d)})`)
  .attr("text-anchor", "middle")
  .style("font-size", "12px")
  .style("fill", "white")
  .text(d => d.data.label);

// Center text
g.append("text")
  .attr("text-anchor", "middle")
  .attr("dy", "0.35em")
  .style("font-size", "16px")
  .style("font-weight", "bold")
  .text("Total: 100%");''\<close>

definition tpl_histogram :: string where
  \<open>tpl_histogram = ''const data = d3.range(1000).map(d3.randomNormal(50, 15));

const margin = utils.margin();
const innerWidth = utils.innerWidth(width, margin);
const innerHeight = utils.innerHeight(height, margin);

const svg = d3.select(container)
  .append("svg")
  .attr("width", width)
  .attr("height", height);

const g = svg.append("g")
  .attr("transform", `translate(${margin.left},${margin.top})`);

const x = d3.scaleLinear()
  .domain(d3.extent(data))
  .range([0, innerWidth]);

const histogram = d3.histogram()
  .value(d => d)
  .domain(x.domain())
  .thresholds(x.ticks(20));

const bins = histogram(data);

const y = d3.scaleLinear()
  .domain([0, d3.max(bins, d => d.length)])
  .range([innerHeight, 0]);

g.selectAll(".bar")
  .data(bins)
  .enter().append("rect")
  .attr("class", "bar")
  .attr("x", d => x(d.x0))
  .attr("y", d => y(d.length))
  .attr("width", d => Math.max(0, x(d.x1) - x(d.x0) - 1))
  .attr("height", d => innerHeight - y(d.length))
  .style("fill", utils.colors[4])
  .style("opacity", 0.8);

// Add axes
g.append("g")
  .attr("transform", `translate(0,${innerHeight})`)
  .call(d3.axisBottom(x));

g.append("g")
  .call(d3.axisLeft(y));''\<close>

definition tpl_heatmap :: string where
  \<open>tpl_heatmap = ''const data = [];
for (let i = 0; i < 10; i++) {
  for (let j = 0; j < 8; j++) {
    data.push({
      row: i,
      col: j,
      value: Math.random()
    });
  }
}

const margin = utils.margin(50, 20, 50, 50);
const innerWidth = utils.innerWidth(width, margin);
const innerHeight = utils.innerHeight(height, margin);

const svg = d3.select(container)
  .append("svg")
  .attr("width", width)
  .attr("height", height);

const g = svg.append("g")
  .attr("transform", `translate(${margin.left},${margin.top})`);

const cellWidth = innerWidth / 8;
const cellHeight = innerHeight / 10;

const colorScale = d3.scaleSequential(d3.interpolateBlues)
  .domain([0, 1]);

g.selectAll(".cell")
  .data(data)
  .enter().append("rect")
  .attr("class", "cell")
  .attr("x", d => d.col * cellWidth)
  .attr("y", d => d.row * cellHeight)
  .attr("width", cellWidth - 1)
  .attr("height", cellHeight - 1)
  .style("fill", d => colorScale(d.value))
  .style("stroke", "white")
  .style("stroke-width", 1);

// Add labels
const xLabels = [\'A\', \'B\', \'C\', \'D\', \'E\', \'F\', \'G\', \'H\'];
const yLabels = d3.range(10).map(i => `Row ${i+1}`);

g.selectAll(".col-label")
  .data(xLabels)
  .enter().append("text")
  .attr("class", "col-label")
  .attr("x", (d, i) => i * cellWidth + cellWidth / 2)
  .attr("y", -10)
  .attr("text-anchor", "middle")
  .style("font-size", "12px")
  .text(d => d);

g.selectAll(".row-label")
  .data(yLabels)
  .enter().append("text")
  .attr("class", "row-label")
  .attr("x", -10)
  .attr("y", (d, i) => i * cellHeight + cellHeight / 2)
  .attr("text-anchor", "end")
  .attr("dy", "0.35em")
  .style("font-size", "12px")
  .text(d => d);''\<close>

definition tpl_force_network :: string where
  \<open>tpl_force_network = ''const nodes = d3.range(20).map(i => ({
  id: i,
  group: Math.floor(i / 5)
}));

const links = d3.range(30).map(() => ({
  source: Math.floor(Math.random() * 20),
  target: Math.floor(Math.random() * 20)
}));

const svg = d3.select(container)
  .append("svg")
  .attr("width", width)
  .attr("height", height);

const simulation = d3.forceSimulation(nodes)
  .force("link", d3.forceLink(links).id(d => d.id))
  .force("charge", d3.forceManyBody().strength(-200))
  .force("center", d3.forceCenter(width / 2, height / 2));

const link = svg.append("g")
  .selectAll("line")
  .data(links)
  .enter().append("line")
  .style("stroke", "#999")
  .style("stroke-width", 2)
  .style("opacity", 0.6);

const node = svg.append("g")
  .selectAll("circle")
  .data(nodes)
  .enter().append("circle")
  .attr("r", 8)
  .style("fill", d => utils.colors[d.group])
  .call(d3.drag()
    .on("start", dragstarted)
    .on("drag", dragged)
    .on("end", dragended));

simulation.on("tick", () => {
  link
    .attr("x1", d => d.source.x)
    .attr("y1", d => d.source.y)
    .attr("x2", d => d.target.x)
    .attr("y2", d => d.target.y);

  node
    .attr("cx", d => d.x)
    .attr("cy", d => d.y);
});

function dragstarted(event, d) {
  if (!event.active) simulation.alphaTarget(0.3).restart();
  d.fx = d.x;
  d.fy = d.y;
}

function dragged(event, d) {
  d.fx = event.x;
  d.fy = event.y;
}

function dragended(event, d) {
  if (!event.active) simulation.alphaTarget(0);
  d.fx = null;
  d.fy = null;
}''\<close>

definition tpl_tree :: string where
  \<open>tpl_tree = ''const treeData = {
  name: "Root",
  children: [
    {
      name: "Branch A",
      children: [
        {name: "Leaf A1"},
        {name: "Leaf A2"},
        {name: "Leaf A3"}
      ]
    },
    {
      name: "Branch B",
      children: [
        {name: "Leaf B1"},
        {name: "Leaf B2"}
      ]
    },
    {
      name: "Branch C",
      children: [
        {name: "Leaf C1"}
      ]
    }
  ]
};

const margin = utils.margin(20, 120, 20, 120);
const innerWidth = utils.innerWidth(width, margin);
const innerHeight = utils.innerHeight(height, margin);

const svg = d3.select(container)
  .append("svg")
  .attr("width", width)
  .attr("height", height);

const g = svg.append("g")
  .attr("transform", `translate(${margin.left},${margin.top})`);

const tree = d3.tree()
  .size([innerHeight, innerWidth]);

const root = d3.hierarchy(treeData);
tree(root);

const link = g.selectAll(".link")
  .data(root.links())
  .enter().append("path")
  .attr("class", "link")
  .style("fill", "none")
  .style("stroke", "#999")
  .style("stroke-width", 2)
  .attr("d", d3.linkHorizontal()
    .x(d => d.y)
    .y(d => d.x));

const node = g.selectAll(".node")
  .data(root.descendants())
  .enter().append("g")
  .attr("class", "node")
  .attr("transform", d => `translate(${d.y},${d.x})`);

node.append("circle")
  .attr("r", 6)
  .style("fill", utils.colors[0])
  .style("stroke", "white")
  .style("stroke-width", 2);

node.append("text")
  .attr("dy", "0.35em")
  .attr("x", d => d.children ? -13 : 13)
  .style("text-anchor", d => d.children ? "end" : "start")
  .style("font-size", "12px")
  .text(d => d.data.name);''\<close>

definition tpl_treemap :: string where
  \<open>tpl_treemap = ''const data = {
  name: "root",
  children: [
    {name: "A", value: 30},
    {name: "B", value: 25},
    {name: "C", value: 20},
    {name: "D", value: 15},
    {name: "E", value: 10}
  ]
};

const svg = d3.select(container)
  .append("svg")
  .attr("width", width)
  .attr("height", height);

const root = d3.hierarchy(data)
  .sum(d => d.value)
  .sort((a, b) => b.value - a.value);

d3.treemap()
  .size([width, height])
  .padding(2)(root);

const leaf = svg.selectAll("g")
  .data(root.leaves())
  .enter().append("g")
  .attr("transform", d => `translate(${d.x0},${d.y0})`);

leaf.append("rect")
  .attr("width", d => d.x1 - d.x0)
  .attr("height", d => d.y1 - d.y0)
  .style("fill", (d, i) => utils.colors[i])
  .style("stroke", "white")
  .style("stroke-width", 2);

leaf.append("text")
  .attr("x", 4)
  .attr("y", 16)
  .style("font-size", "14px")
  .style("font-weight", "bold")
  .style("fill", "white")
  .text(d => d.data.name);

leaf.append("text")
  .attr("x", 4)
  .attr("y", 32)
  .style("font-size", "12px")
  .style("fill", "white")
  .text(d => d.data.value);''\<close>

definition tpl_timeline :: string where
  \<open>tpl_timeline = ''const events = [
  {date: "2023-01", event: "Project Started", type: "milestone"},
  {date: "2023-03", event: "Phase 1 Complete", type: "milestone"},
  {date: "2023-05", event: "Beta Release", type: "release"},
  {date: "2023-07", event: "User Testing", type: "testing"},
  {date: "2023-09", event: "Final Release", type: "release"},
  {date: "2023-11", event: "Project End", type: "milestone"}
];

const parseTime = d3.timeParse("%Y-%m");
events.forEach(d => d.parsedDate = parseTime(d.date));

const margin = utils.margin(50, 50, 50, 50);
const innerWidth = utils.innerWidth(width, margin);
const innerHeight = utils.innerHeight(height, margin);

const svg = d3.select(container)
  .append("svg")
  .attr("width", width)
  .attr("height", height);

const g = svg.append("g")
  .attr("transform", `translate(${margin.left},${margin.top})`);

const x = d3.scaleTime()
  .domain(d3.extent(events, d => d.parsedDate))
  .range([0, innerWidth]);

const colorScale = d3.scaleOrdinal()
  .domain(["milestone", "release", "testing"])
  .range([utils.colors[0], utils.colors[1], utils.colors[2]]);

// Timeline line
g.append("line")
  .attr("x1", 0)
  .attr("x2", innerWidth)
  .attr("y1", innerHeight / 2)
  .attr("y2", innerHeight / 2)
  .style("stroke", "#999")
  .style("stroke-width", 3);

// Event points
g.selectAll(".event")
  .data(events)
  .enter().append("circle")
  .attr("class", "event")
  .attr("cx", d => x(d.parsedDate))
  .attr("cy", innerHeight / 2)
  .attr("r", 8)
  .style("fill", d => colorScale(d.type))
  .style("stroke", "white")
  .style("stroke-width", 3);

// Event labels
g.selectAll(".label")
  .data(events)
  .enter().append("text")
  .attr("class", "label")
  .attr("x", d => x(d.parsedDate))
  .attr("y", (d, i) => i % 2 === 0 ? innerHeight / 2 - 20 : innerHeight / 2 + 35)
  .attr("text-anchor", "middle")
  .style("font-size", "12px")
  .text(d => d.event);

// Date labels
g.selectAll(".date")
  .data(events)
  .enter().append("text")
  .attr("class", "date")
  .attr("x", d => x(d.parsedDate))
  .attr("y", (d, i) => i % 2 === 0 ? innerHeight / 2 - 35 : innerHeight / 2 + 50)
  .attr("text-anchor", "middle")
  .style("font-size", "10px")
  .style("fill", "#666")
  .text(d => d.date);''\<close>

definition tpl_radar :: string where
  \<open>tpl_radar = ''const data = [
  {axis: "Speed", value: 0.8},
  {axis: "Reliability", value: 0.6},
  {axis: "Comfort", value: 0.9},
  {axis: "Safety", value: 0.7},
  {axis: "Efficiency", value: 0.5},
  {axis: "Price", value: 0.3}
];

const cfg = {
  radius: Math.min(width, height) / 2 - 50,
  levels: 5,
  maxValue: 1
};

const svg = d3.select(container)
  .append("svg")
  .attr("width", width)
  .attr("height", height);

const g = svg.append("g")
  .attr("transform", `translate(${width/2},${height/2})`);

const angleSlice = Math.PI * 2 / data.length;

// Create the background circles
for (let j = 0; j < cfg.levels; j++) {
  const levelFactor = cfg.radius * ((j + 1) / cfg.levels);
  
  g.append("circle")
    .attr("r", levelFactor)
    .style("fill", "none")
    .style("stroke", "#CDCDCD")
    .style("stroke-width", "1px")
    .style("stroke-dasharray", "3,3");
}

// Create the axes
const axes = g.selectAll(".axis")
  .data(data)
  .enter().append("g")
  .attr("class", "axis");

axes.append("line")
  .attr("x1", 0)
  .attr("y1", 0)
  .attr("x2", (d, i) => cfg.radius * Math.cos(angleSlice * i - Math.PI / 2))
  .attr("y2", (d, i) => cfg.radius * Math.sin(angleSlice * i - Math.PI / 2))
  .style("stroke", "#999")
  .style("stroke-width", "2px");

// Add axis labels
axes.append("text")
  .attr("x", (d, i) => (cfg.radius + 20) * Math.cos(angleSlice * i - Math.PI / 2))
  .attr("y", (d, i) => (cfg.radius + 20) * Math.sin(angleSlice * i - Math.PI / 2))
  .attr("dy", "0.35em")
  .attr("text-anchor", "middle")
  .style("font-size", "12px")
  .text(d => d.axis);

// Create the radar line
const radarLine = d3.lineRadial()
  .angle((d, i) => i * angleSlice)
  .radius(d => cfg.radius * (d.value / cfg.maxValue))
  .curve(d3.curveLinearClosed);

const radarPath = g.append("path")
  .datum(data)
  .attr("d", radarLine)
  .style("fill", utils.colors[0])
  .style("fill-opacity", 0.3)
  .style("stroke", utils.colors[0])
  .style("stroke-width", "2px");

// Add the data points
g.selectAll(".radar-point")
  .data(data)
  .enter().append("circle")
  .attr("class", "radar-point")
  .attr("cx", (d, i) => cfg.radius * (d.value / cfg.maxValue) * Math.cos(angleSlice * i - Math.PI / 2))
  .attr("cy", (d, i) => cfg.radius * (d.value / cfg.maxValue) * Math.sin(angleSlice * i - Math.PI / 2))
  .attr("r", 4)
  .style("fill", utils.colors[0])
  .style("stroke", "white")
  .style("stroke-width", "2px");''\<close>

definition tpl_sankey :: string where
  \<open>tpl_sankey = ''// Sankey diagrams require d3-sankey plugin, 
// this is a simplified flow diagram
const nodes = [
  {name: "Source A", layer: 0},
  {name: "Source B", layer: 0},
  {name: "Middle", layer: 1},
  {name: "Target X", layer: 2},
  {name: "Target Y", layer: 2}
];

const links = [
  {source: 0, target: 2, value: 30},
  {source: 1, target: 2, value: 20},
  {source: 2, target: 3, value: 25},
  {source: 2, target: 4, value: 25}
];

const svg = d3.select(container)
  .append("svg")
  .attr("width", width)
  .attr("height", height);

const nodeWidth = 20;
const nodePadding = 40;

// Position nodes
const layers = d3.group(nodes, d => d.layer);
layers.forEach((layerNodes, layer) => {
  const x = (layer * width) / (layers.size - 1);
  const yStep = height / (layerNodes.length + 1);
  layerNodes.forEach((node, i) => {
    node.x = x;
    node.y = (i + 1) * yStep;
  });
});

// Draw links
const link = svg.selectAll(".link")
  .data(links)
  .enter().append("path")
  .attr("class", "link")
  .attr("d", d => {
    const source = nodes[d.source];
    const target = nodes[d.target];
    return `M${source.x + nodeWidth},${source.y} 
            C${(source.x + target.x) / 2},${source.y} 
            ${(source.x + target.x) / 2},${target.y} 
            ${target.x},${target.y}`;
  })
  .style("fill", "none")
  .style("stroke", utils.colors[5])
  .style("stroke-width", d => Math.max(1, d.value / 2))
  .style("opacity", 0.7);

// Draw nodes
const node = svg.selectAll(".node")
  .data(nodes)
  .enter().append("rect")
  .attr("class", "node")
  .attr("x", d => d.x)
  .attr("y", d => d.y - 15)
  .attr("width", nodeWidth)
  .attr("height", 30)
  .style("fill", utils.colors[3])
  .style("stroke", "white")
  .style("stroke-width", 2);

// Add labels
svg.selectAll(".label")
  .data(nodes)
  .enter().append("text")
  .attr("class", "label")
  .attr("x", d => d.x + nodeWidth / 2)
  .attr("y", d => d.y - 20)
  .attr("text-anchor", "middle")
  .style("font-size", "12px")
  .text(d => d.name);''\<close>

definition tpl_candlestick :: string where
  \<open>tpl_candlestick = ''const data = d3.range(30).map(i => {
  const open = 100 + Math.random() * 50;
  const close = open + (Math.random() - 0.5) * 20;
  const high = Math.max(open, close) + Math.random() * 10;
  const low = Math.min(open, close) - Math.random() * 10;
  return {
    date: i,
    open: open,
    high: high,
    low: low,
    close: close
  };
});

const margin = utils.margin();
const innerWidth = utils.innerWidth(width, margin);
const innerHeight = utils.innerHeight(height, margin);

const svg = d3.select(container)
  .append("svg")
  .attr("width", width)
  .attr("height", height);

const g = svg.append("g")
  .attr("transform", `translate(${margin.left},${margin.top})`);

const x = d3.scaleBand()
  .domain(data.map(d => d.date))
  .range([0, innerWidth])
  .padding(0.3);

const y = d3.scaleLinear()
  .domain(d3.extent(data.flatMap(d => [d.low, d.high])))
  .range([innerHeight, 0]);

const candleWidth = x.bandwidth();

// High-low lines
g.selectAll(".high-low")
  .data(data)
  .enter().append("line")
  .attr("class", "high-low")
  .attr("x1", d => x(d.date) + candleWidth / 2)
  .attr("x2", d => x(d.date) + candleWidth / 2)
  .attr("y1", d => y(d.high))
  .attr("y2", d => y(d.low))
  .style("stroke", "#666")
  .style("stroke-width", 1);

// Candle bodies
g.selectAll(".candle")
  .data(data)
  .enter().append("rect")
  .attr("class", "candle")
  .attr("x", d => x(d.date))
  .attr("y", d => y(Math.max(d.open, d.close)))
  .attr("width", candleWidth)
  .attr("height", d => Math.abs(y(d.open) - y(d.close)))
  .style("fill", d => d.close > d.open ? "#4CAF50" : "#F44336")
  .style("stroke", d => d.close > d.open ? "#388E3C" : "#D32F2F")
  .style("stroke-width", 1);

// Add axes
g.append("g")
  .attr("transform", `translate(0,${innerHeight})`)
  .call(d3.axisBottom(x));

g.append("g")
  .call(d3.axisLeft(y));''\<close>

definition tpl_box_plot :: string where
  \<open>tpl_box_plot = ''const data = [
  {category: \'A\', values: d3.range(100).map(() => d3.randomNormal(50, 15)())},
  {category: \'B\', values: d3.range(100).map(() => d3.randomNormal(60, 20)())},
  {category: \'C\', values: d3.range(100).map(() => d3.randomNormal(40, 10)())},
  {category: \'D\', values: d3.range(100).map(() => d3.randomNormal(70, 25)())}
];

const margin = utils.margin();
const innerWidth = utils.innerWidth(width, margin);
const innerHeight = utils.innerHeight(height, margin);

const svg = d3.select(container)
  .append("svg")
  .attr("width", width)
  .attr("height", height);

const g = svg.append("g")
  .attr("transform", `translate(${margin.left},${margin.top})`);

const x = d3.scaleBand()
  .domain(data.map(d => d.category))
  .range([0, innerWidth])
  .padding(0.3);

const allValues = data.flatMap(d => d.values);
const y = d3.scaleLinear()
  .domain(d3.extent(allValues))
  .range([innerHeight, 0]);

// Calculate quartiles for each category
const processedData = data.map(d => {
  const sorted = d.values.sort(d3.ascending);
  const q1 = d3.quantile(sorted, 0.25);
  const median = d3.quantile(sorted, 0.5);
  const q3 = d3.quantile(sorted, 0.75);
  const iqr = q3 - q1;
  const min = Math.max(d3.min(sorted), q1 - 1.5 * iqr);
  const max = Math.min(d3.max(sorted), q3 + 1.5 * iqr);
  
  return {
    category: d.category,
    q1: q1,
    median: median,
    q3: q3,
    min: min,
    max: max
  };
});

const boxWidth = x.bandwidth() * 0.7;

processedData.forEach(d => {
  const centerX = x(d.category) + x.bandwidth() / 2;
  
  // Whiskers
  g.append("line")
    .attr("x1", centerX)
    .attr("x2", centerX)
    .attr("y1", y(d.min))
    .attr("y2", y(d.max))
    .style("stroke", "#666")
    .style("stroke-width", 1);
  
  // Min/Max lines
  [d.min, d.max].forEach(value => {
    g.append("line")
      .attr("x1", centerX - boxWidth / 4)
      .attr("x2", centerX + boxWidth / 4)
      .attr("y1", y(value))
      .attr("y2", y(value))
      .style("stroke", "#666")
      .style("stroke-width", 1);
  });
  
  // Box
  g.append("rect")
    .attr("x", centerX - boxWidth / 2)
    .attr("y", y(d.q3))
    .attr("width", boxWidth)
    .attr("height", y(d.q1) - y(d.q3))
    .style("fill", utils.colors[0])
    .style("fill-opacity", 0.7)
    .style("stroke", utils.colors[0])
    .style("stroke-width", 2);
  
  // Median line
  g.append("line")
    .attr("x1", centerX - boxWidth / 2)
    .attr("x2", centerX + boxWidth / 2)
    .attr("y1", y(d.median))
    .attr("y2", y(d.median))
    .style("stroke", "#000")
    .style("stroke-width", 2);
});

// Add axes
g.append("g")
  .attr("transform", `translate(0,${innerHeight})`)
  .call(d3.axisBottom(x));

g.append("g")
  .call(d3.axisLeft(y));''\<close>

definition tpl_violin_plot :: string where
  \<open>tpl_violin_plot = ''const data = [
  {category: \'Group A\', values: d3.range(200).map(() => d3.randomNormal(50, 15)())},
  {category: \'Group B\', values: d3.range(200).map(() => d3.randomNormal(60, 10)())},
  {category: \'Group C\', values: d3.range(200).map(() => d3.randomNormal(40, 20)())}
];

const margin = utils.margin();
const innerWidth = utils.innerWidth(width, margin);
const innerHeight = utils.innerHeight(height, margin);

const svg = d3.select(container)
  .append("svg")
  .attr("width", width)
  .attr("height", height);

const g = svg.append("g")
  .attr("transform", `translate(${margin.left},${margin.top})`);

const x = d3.scaleBand()
  .domain(data.map(d => d.category))
  .range([0, innerWidth])
  .padding(0.2);

const allValues = data.flatMap(d => d.values);
const y = d3.scaleLinear()
  .domain(d3.extent(allValues))
  .range([innerHeight, 0]);

data.forEach(categoryData => {
  const centerX = x(categoryData.category) + x.bandwidth() / 2;
  const violinWidth = x.bandwidth() * 0.8;
  
  // Create density estimation
  const bins = d3.histogram()
    .domain(y.domain())
    .thresholds(20)(categoryData.values);
  
  const maxDensity = d3.max(bins, d => d.length);
  const densityScale = d3.scaleLinear()
    .domain([0, maxDensity])
    .range([0, violinWidth / 2]);
  
  // Create violin shape
  const violinPath = bins.map(bin => {
    const binY = y((bin.x0 + bin.x1) / 2);
    const binWidth = densityScale(bin.length);
    return [centerX - binWidth, binY, centerX + binWidth, binY];
  });
  
  // Draw left side of violin
  const leftSide = violinPath.map(d => [d[0], d[1]]);
  leftSide.unshift([centerX, y.range()[0]]);
  leftSide.push([centerX, y.range()[1]]);
  
  // Draw right side of violin
  const rightSide = violinPath.map(d => [d[2], d[3]]).reverse();
  rightSide.unshift([centerX, y.range()[1]]);
  rightSide.push([centerX, y.range()[0]]);
  
  const fullPath = leftSide.concat(rightSide);
  
  const line = d3.line()
    .x(d => d[0])
    .y(d => d[1])
    .curve(d3.curveCardinal);
  
  g.append("path")
    .datum(fullPath)
    .attr("d", line)
    .style("fill", utils.colors[data.indexOf(categoryData)])
    .style("fill-opacity", 0.7)
    .style("stroke", utils.colors[data.indexOf(categoryData)])
    .style("stroke-width", 1);
  
  // Add median line
  const median = d3.median(categoryData.values);
  g.append("line")
    .attr("x1", centerX - violinWidth / 4)
    .attr("x2", centerX + violinWidth / 4)
    .attr("y1", y(median))
    .attr("y2", y(median))
    .style("stroke", "#000")
    .style("stroke-width", 2);
});

// Add axes
g.append("g")
  .attr("transform", `translate(0,${innerHeight})`)
  .call(d3.axisBottom(x));

g.append("g")
  .call(d3.axisLeft(y));''\<close>

definition tpl_chord :: string where
  \<open>tpl_chord = ''const matrix = [
  [11975,  5871, 8916, 2868],
  [ 1951, 10048, 2060, 6171],
  [ 8010, 16145, 8090, 8045],
  [ 1013,   990,  940, 6907]
];

const names = ["Group A", "Group B", "Group C", "Group D"];

const radius = Math.min(width, height) / 2 - 40;

const svg = d3.select(container)
  .append("svg")
  .attr("width", width)
  .attr("height", height);

const g = svg.append("g")
  .attr("transform", `translate(${width/2},${height/2})`);

const chord = d3.chord()
  .padAngle(0.05)
  .sortSubgroups(d3.descending);

const arc = d3.arc()
  .innerRadius(radius - 20)
  .outerRadius(radius);

const ribbon = d3.ribbon()
  .radius(radius - 20);

const chords = chord(matrix);

// Add groups
const group = g.append("g")
  .selectAll("g")
  .data(chords.groups)
  .enter().append("g");

group.append("path")
  .style("fill", (d, i) => utils.colors[i])
  .style("stroke", "#fff")
  .attr("d", arc);

group.append("text")
  .each(d => { d.angle = (d.startAngle + d.endAngle) / 2; })
  .attr("dy", ".35em")
  .attr("transform", d => `
    rotate(${(d.angle * 180 / Math.PI - 90)})
    translate(${radius + 10})
    ${d.angle > Math.PI ? "rotate(180)" : ""}
  `)
  .style("text-anchor", d => d.angle > Math.PI ? "end" : null)
  .style("font-size", "12px")
  .text((d, i) => names[i]);

// Add ribbons
g.append("g")
  .selectAll("path")
  .data(chords)
  .enter().append("path")
  .attr("d", ribbon)
  .style("fill", d => utils.colors[d.source.index])
  .style("fill-opacity", 0.7)
  .style("stroke", "#fff")
  .style("stroke-width", 1);''\<close>

definition tpl_sunburst :: string where
  \<open>tpl_sunburst = ''const data = {
  name: "root",
  children: [
    {
      name: "Technology",
      children: [
        {name: "Frontend", value: 30},
        {name: "Backend", value: 25},
        {name: "Mobile", value: 20},
        {name: "DevOps", value: 15}
      ]
    },
    {
      name: "Business",
      children: [
        {name: "Sales", value: 35},
        {name: "Marketing", value: 30},
        {name: "Support", value: 20}
      ]
    },
    {
      name: "Operations",
      children: [
        {name: "HR", value: 25},
        {name: "Finance", value: 30},
        {name: "Legal", value: 15}
      ]
    }
  ]
};

const radius = Math.min(width, height) / 2;

const svg = d3.select(container)
  .append("svg")
  .attr("width", width)
  .attr("height", height);

const g = svg.append("g")
  .attr("transform", `translate(${width/2},${height/2})`);

const partition = d3.partition()
  .size([2 * Math.PI, radius]);

const root = d3.hierarchy(data)
  .sum(d => d.value)
  .sort((a, b) => b.value - a.value);

partition(root);

const arc = d3.arc()
  .startAngle(d => d.x0)
  .endAngle(d => d.x1)
  .innerRadius(d => d.y0)
  .outerRadius(d => d.y1);

const paths = g.selectAll("path")
  .data(root.descendants())
  .enter().append("path")
  .attr("d", arc)
  .style("fill", (d, i) => utils.colors[i % utils.colors.length])
  .style("fill-opacity", d => d.depth === 0 ? 0 : 0.8)
  .style("stroke", "#fff")
  .style("stroke-width", 2);

// Add labels
g.selectAll("text")
  .data(root.descendants().filter(d => d.depth > 0))
  .enter().append("text")
  .attr("transform", d => {
    const angle = (d.x0 + d.x1) / 2;
    const radius = (d.y0 + d.y1) / 2;
    return `rotate(${(angle * 180 / Math.PI - 90)}) translate(${radius},0) rotate(${angle > Math.PI ? 180 : 0})`;
  })
  .attr("dy", "0.35em")
  .attr("text-anchor", d => (d.x0 + d.x1) / 2 > Math.PI ? "end" : "start")
  .style("font-size", "10px")
  .style("fill", "#000")
  .text(d => d.data.name);''\<close>

definition tpl_gantt :: string where
  \<open>tpl_gantt = ''const tasks = [
  {name: "Planning", start: new Date(2023, 0, 1), end: new Date(2023, 0, 15), type: "planning"},
  {name: "Design", start: new Date(2023, 0, 10), end: new Date(2023, 1, 5), type: "design"},
  {name: "Development", start: new Date(2023, 1, 1), end: new Date(2023, 3, 15), type: "development"},
  {name: "Testing", start: new Date(2023, 3, 10), end: new Date(2023, 4, 5), type: "testing"},
  {name: "Deployment", start: new Date(2023, 4, 1), end: new Date(2023, 4, 15), type: "deployment"}
];

const margin = utils.margin(20, 50, 30, 150);
const innerWidth = utils.innerWidth(width, margin);
const innerHeight = utils.innerHeight(height, margin);

const svg = d3.select(container)
  .append("svg")
  .attr("width", width)
  .attr("height", height);

const g = svg.append("g")
  .attr("transform", `translate(${margin.left},${margin.top})`);

const x = d3.scaleTime()
  .domain(d3.extent(tasks.flatMap(d => [d.start, d.end])))
  .range([0, innerWidth]);

const y = d3.scaleBand()
  .domain(tasks.map(d => d.name))
  .range([0, innerHeight])
  .padding(0.2);

const colorScale = d3.scaleOrdinal()
  .domain(["planning", "design", "development", "testing", "deployment"])
  .range(utils.colors);

// Task bars
g.selectAll(".task")
  .data(tasks)
  .enter().append("rect")
  .attr("class", "task")
  .attr("x", d => x(d.start))
  .attr("y", d => y(d.name))
  .attr("width", d => x(d.end) - x(d.start))
  .attr("height", y.bandwidth())
  .style("fill", d => colorScale(d.type))
  .style("stroke", "white")
  .style("stroke-width", 1)
  .style("rx", 3);

// Task labels
g.selectAll(".task-label")
  .data(tasks)
  .enter().append("text")
  .attr("class", "task-label")
  .attr("x", d => x(d.start) + (x(d.end) - x(d.start)) / 2)
  .attr("y", d => y(d.name) + y.bandwidth() / 2)
  .attr("dy", "0.35em")
  .attr("text-anchor", "middle")
  .style("font-size", "12px")
  .style("fill", "white")
  .style("font-weight", "bold")
  .text(d => d.name);

// Add axes
g.append("g")
  .attr("transform", `translate(0,${innerHeight})`)
  .call(d3.axisBottom(x).tickFormat(d3.timeFormat("%b %Y")));

g.append("g")
  .call(d3.axisLeft(y));

// Add today line
const today = new Date();
g.append("line")
  .attr("x1", x(today))
  .attr("x2", x(today))
  .attr("y1", 0)
  .attr("y2", innerHeight)
  .style("stroke", "red")
  .style("stroke-width", 2)
  .style("stroke-dasharray", "5,5");''\<close>

definition tpl_parallel :: string where
  \<open>tpl_parallel = ''const data = d3.range(50).map(() => ({
  feature1: Math.random() * 100,
  feature2: Math.random() * 50 + 25,
  feature3: Math.random() * 80 + 10,
  feature4: Math.random() * 60 + 20,
  feature5: Math.random() * 90 + 5,
  category: Math.floor(Math.random() * 3)
}));

const features = ["feature1", "feature2", "feature3", "feature4", "feature5"];

const margin = utils.margin(30, 30, 30, 30);
const innerWidth = utils.innerWidth(width, margin);
const innerHeight = utils.innerHeight(height, margin);

const svg = d3.select(container)
  .append("svg")
  .attr("width", width)
  .attr("height", height);

const g = svg.append("g")
  .attr("transform", `translate(${margin.left},${margin.top})`);

// Scales for each dimension
const yScales = {};
features.forEach(feature => {
  yScales[feature] = d3.scaleLinear()
    .domain(d3.extent(data, d => d[feature]))
    .range([innerHeight, 0]);
});

const x = d3.scalePoint()
  .domain(features)
  .range([0, innerWidth]);

// Line generator
const line = d3.line()
  .x((d, i) => x(features[i]))
  .y((d, i) => yScales[features[i]](d));

// Draw lines
g.selectAll(".data-line")
  .data(data)
  .enter().append("path")
  .attr("class", "data-line")
  .attr("d", d => line(features.map(feature => d[feature])))
  .style("fill", "none")
  .style("stroke", d => utils.colors[d.category])
  .style("stroke-width", 2)
  .style("opacity", 0.7);

// Draw axes
features.forEach(feature => {
  const axis = g.append("g")
    .attr("transform", `translate(${x(feature)},0)`)
    .call(d3.axisLeft(yScales[feature]));
  
  axis.append("text")
    .attr("y", -20)
    .attr("text-anchor", "middle")
    .style("font-size", "12px")
    .style("fill", "#000")
    .text(feature);
});''\<close>

definition tpl_streamgraph :: string where
  \<open>tpl_streamgraph = ''const data = [];
const categories = [\'Cat A\', \'Cat B\', \'Cat C\', \'Cat D\'];
const timePoints = d3.range(20);

timePoints.forEach(time => {
  const point = {time: time};
  categories.forEach((cat, i) => {
    point[cat] = Math.max(0, Math.sin(time * 0.5 + i) * 20 + 30 + Math.random() * 10);
  });
  data.push(point);
});

const margin = utils.margin();
const innerWidth = utils.innerWidth(width, margin);
const innerHeight = utils.innerHeight(height, margin);

const svg = d3.select(container)
  .append("svg")
  .attr("width", width)
  .attr("height", height);

const g = svg.append("g")
  .attr("transform", `translate(${margin.left},${margin.top})`);

const x = d3.scaleLinear()
  .domain(d3.extent(data, d => d.time))
  .range([0, innerWidth]);

const stack = d3.stack()
  .keys(categories)
  .offset(d3.stackOffsetWiggle)
  .order(d3.stackOrderNone);

const stackedData = stack(data);

const y = d3.scaleLinear()
  .domain(d3.extent(stackedData.flat(2)))
  .range([innerHeight, 0]);

const area = d3.area()
  .x(d => x(d.data.time))
  .y0(d => y(d[0]))
  .y1(d => y(d[1]))
  .curve(d3.curveBasis);

g.selectAll(".layer")
  .data(stackedData)
  .enter().append("path")
  .attr("class", "layer")
  .attr("d", area)
  .style("fill", (d, i) => utils.colors[i])
  .style("opacity", 0.8);

// Add axes
g.append("g")
  .attr("transform", `translate(0,${innerHeight})`)
  .call(d3.axisBottom(x));

g.append("g")
  .call(d3.axisLeft(y));''\<close>

definition tpl_circle_packing :: string where
  \<open>tpl_circle_packing = ''const data = {
  name: "root",
  children: [
    {name: "Group A", value: 120},
    {name: "Group B", value: 90},
    {name: "Group C", value: 80},
    {name: "Group D", value: 60},
    {name: "Group E", value: 40}
  ]
};

const svg = d3.select(container)
  .append("svg")
  .attr("width", width)
  .attr("height", height);

const pack = d3.pack()
  .size([width, height])
  .padding(3);

const root = d3.hierarchy(data)
  .sum(d => d.value);

pack(root);

const nodes = svg.selectAll(\'circle\')
  .data(root.descendants())
  .enter()
  .append(\'circle\')
  .attr(\'cx\', d => d.x)
  .attr(\'cy\', d => d.y)
  .attr(\'r\', d => d.r)
  .style(\'fill\', (d, i) => d.children ? utils.colors[0] : utils.colors[i % utils.colors.length])
  .style(\'fill-opacity\', d => d.children ? 0.3 : 0.8)
  .style(\'stroke\', \'white\')
  .style(\'stroke-width\', 2);

svg.selectAll(\'text\')
  .data(root.descendants().filter(d => !d.children))
  .enter()
  .append(\'text\')
  .attr(\'x\', d => d.x)
  .attr(\'y\', d => d.y)
  .attr(\'text-anchor\', \'middle\')
  .attr(\'dy\', \'0.35em\')
  .style(\'font-size\', \'12px\')
  .text(d => d.data.name);''\<close>

definition tpl_force_directed_graph :: string where
  \<open>tpl_force_directed_graph = ''const nodes = [
  {id: "A", group: 1},
  {id: "B", group: 1},
  {id: "C", group: 2},
  {id: "D", group: 2},
  {id: "E", group: 3},
  {id: "F", group: 3}
];

const links = [
  {source: "A", target: "B"},
  {source: "A", target: "C"},
  {source: "B", target: "D"},
  {source: "C", target: "E"},
  {source: "D", target: "F"},
  {source: "E", target: "F"}
];

const svg = d3.select(container)
  .append("svg")
  .attr("width", width)
  .attr("height", height);

const simulation = d3.forceSimulation(nodes)
  .force("link", d3.forceLink(links).id(d => d.id).distance(80))
  .force("charge", d3.forceManyBody().strength(-300))
  .force("center", d3.forceCenter(width / 2, height / 2));

const link = svg.append("g")
  .selectAll("line")
  .data(links)
  .enter().append("line")
  .style("stroke", "#999")
  .style("stroke-opacity", 0.6)
  .style("stroke-width", 2);

const node = svg.append("g")
  .selectAll("circle")
  .data(nodes)
  .enter().append("circle")
  .attr("r", 10)
  .style("fill", d => utils.colors[d.group - 1])
  .call(d3.drag()
    .on("start", dragstarted)
    .on("drag", dragged)
    .on("end", dragended));

const label = svg.append("g")
  .selectAll("text")
  .data(nodes)
  .enter().append("text")
  .text(d => d.id)
  .style("text-anchor", "middle")
  .style("dominant-baseline", "central")
  .style("font-size", "12px");

simulation.on("tick", () => {
  link
    .attr("x1", d => d.source.x)
    .attr("y1", d => d.source.y)
    .attr("x2", d => d.target.x)
    .attr("y2", d => d.target.y);

  node
    .attr("cx", d => d.x)
    .attr("cy", d => d.y);

  label
    .attr("x", d => d.x)
    .attr("y", d => d.y);
});

function dragstarted(event, d) {
  if (!event.active) simulation.alphaTarget(0.3).restart();
  d.fx = d.x;
  d.fy = d.y;
}

function dragged(event, d) {
  d.fx = event.x;
  d.fy = event.y;
}

function dragended(event, d) {
  if (!event.active) simulation.alphaTarget(0);
  d.fx = null;
  d.fy = null;
}''\<close>

definition tpl_zoomable_circle_packing :: string where
  \<open>tpl_zoomable_circle_packing = ''const data = {
  name: "Company",
  children: [
    {
      name: "Engineering",
      children: [
        {name: "Frontend", value: 120},
        {name: "Backend", value: 100},
        {name: "Mobile", value: 80}
      ]
    },
    {
      name: "Design",
      children: [
        {name: "UI/UX", value: 60},
        {name: "Graphics", value: 40}
      ]
    },
    {
      name: "Marketing",
      children: [
        {name: "Digital", value: 70},
        {name: "Content", value: 50}
      ]
    }
  ]
};

const svg = d3.select(container)
  .append("svg")
  .attr("width", width)
  .attr("height", height)
  .style("font", "10px sans-serif")
  .style("text-anchor", "middle");

const pack = d3.pack()
  .size([width, height])
  .padding(3);

const root = d3.hierarchy(data)
  .sum(d => d.value)
  .sort((a, b) => b.value - a.value);

let focus = root;
let view;

pack(root);

const node = svg.append("g")
  .selectAll("circle")
  .data(root.descendants())
  .join("circle")
  .attr("fill", d => d.children ? utils.colors[d.depth] : utils.colors[d.depth + 1])
  .attr("fill-opacity", d => d.children ? 0.3 : 0.8)
  .attr("pointer-events", d => !d.children ? "none" : null)
  .on("mouseover", function() { d3.select(this).attr("stroke", "#000"); })
  .on("mouseout", function() { d3.select(this).attr("stroke", null); })
  .on("click", (event, d) => focus !== d && (zoom(event, d), event.stopPropagation()));

const label = svg.append("g")
  .style("font", "12px sans-serif")
  .attr("pointer-events", "none")
  .attr("text-anchor", "middle")
  .selectAll("text")
  .data(root.descendants())
  .join("text")
  .style("fill-opacity", d => d.parent === root ? 1 : 0)
  .style("display", d => d.parent === root ? "inline" : "none")
  .text(d => d.data.name);

zoomTo([root.x, root.y, root.r * 2]);

function zoomTo(v) {
  const k = width / v[2];
  view = v;
  label.attr("transform", d => `translate(${(d.x - v[0]) * k},${(d.y - v[1]) * k})`);
  node.attr("transform", d => `translate(${(d.x - v[0]) * k},${(d.y - v[1]) * k})`);
  node.attr("r", d => d.r * k);
}

function zoom(event, d) {
  focus = d;
  const transition = svg.transition()
    .duration(750)
    .tween("zoom", d => {
      const i = d3.interpolateZoom(view, [focus.x, focus.y, focus.r * 2]);
      return t => zoomTo(i(t));
    });
}''\<close>

definition tpl_chord_diagram :: string where
  \<open>tpl_chord_diagram = ''const matrix = [
  [11975,  5871, 8916, 2868],
  [ 1951, 10048, 2060, 6171],
  [ 8010, 16145, 8090, 8045],
  [ 1013,   990,  940, 6907]
];

const names = ["Group A", "Group B", "Group C", "Group D"];

const svg = d3.select(container)
  .append("svg")
  .attr("width", width)
  .attr("height", height);

const outerRadius = Math.min(width, height) * 0.5 - 40;
const innerRadius = outerRadius - 30;

const chord = d3.chord()
  .padAngle(0.05)
  .sortSubgroups(d3.descending);

const arc = d3.arc()
  .innerRadius(innerRadius)
  .outerRadius(outerRadius);

const ribbon = d3.ribbon()
  .radius(innerRadius);

const chords = chord(matrix);

const g = svg.append("g")
  .attr("transform", `translate(${width / 2}, ${height / 2})`);

const group = g.append("g")
  .selectAll("g")
  .data(chords.groups)
  .join("g");

group.append("path")
  .style("fill", (d, i) => utils.colors[i])
  .style("stroke", (d, i) => utils.colors[i])
  .attr("d", arc);

group.append("text")
  .each(d => { d.angle = (d.startAngle + d.endAngle) / 2; })
  .attr("dy", "0.35em")
  .attr("transform", d => `
    rotate(${(d.angle * 180 / Math.PI - 90)})
    translate(${outerRadius + 10})
    ${d.angle > Math.PI ? "rotate(180)" : ""}
  `)
  .style("text-anchor", d => d.angle > Math.PI ? "end" : null)
  .text((d, i) => names[i])
  .style("font-size", "11px");

g.append("g")
  .selectAll("path")
  .data(chords)
  .join("path")
  .attr("d", ribbon)
  .style("fill", d => utils.colors[d.source.index])
  .style("fill-opacity", 0.75)
  .style("stroke", (d, i) => utils.colors[d.source.index])
  .style("stroke-width", 1);''\<close>

definition tpl_collapsible_tree :: string where
  \<open>tpl_collapsible_tree = ''const data = {
  name: "Root",
  children: [
    {
      name: "Branch A",
      children: [
        {name: "Leaf A1"},
        {name: "Leaf A2"},
        {
          name: "Sub-branch A3",
          children: [
            {name: "Leaf A3.1"},
            {name: "Leaf A3.2"}
          ]
        }
      ]
    },
    {
      name: "Branch B",
      children: [
        {name: "Leaf B1"},
        {name: "Leaf B2"}
      ]
    },
    {
      name: "Branch C",
      children: [
        {name: "Leaf C1"}
      ]
    }
  ]
};

const svg = d3.select(container)
  .append("svg")
  .attr("width", width)
  .attr("height", height);

const g = svg.append("g")
  .attr("transform", "translate(60,20)");

const tree = d3.tree()
  .size([height - 40, width - 120]);

const root = d3.hierarchy(data);
root.x0 = height / 2;
root.y0 = 0;

root.children.forEach(collapse);

function collapse(d) {
  if (d.children) {
    d._children = d.children;
    d._children.forEach(collapse);
    d.children = null;
  }
}

update(root);

function update(source) {
  const treeData = tree(root);
  const nodes = treeData.descendants();
  const links = treeData.descendants().slice(1);

  nodes.forEach(d => { d.y = d.depth * 180; });

  const node = g.selectAll(\'g.node\')
    .data(nodes, d => d.id || (d.id = Math.random()));

  const nodeEnter = node.enter().append(\'g\')
    .attr(\'class\', \'node\')
    .attr("transform", d => `translate(${source.y0},${source.x0})`)
    .on(\'click\', click);

  nodeEnter.append(\'circle\')
    .attr(\'class\', \'node\')
    .attr(\'r\', 1e-6)
    .style("fill", d => d._children ? utils.colors[1] : "#fff")
    .style("stroke", utils.colors[0])
    .style("stroke-width", "2px");

  nodeEnter.append(\'text\')
    .attr("dy", ".35em")
    .attr("x", d => d.children || d._children ? -13 : 13)
    .attr("text-anchor", d => d.children || d._children ? "end" : "start")
    .text(d => d.data.name);

  const nodeUpdate = nodeEnter.merge(node);

  nodeUpdate.transition()
    .duration(500)
    .attr("transform", d => `translate(${d.y},${d.x})`);

  nodeUpdate.select(\'circle.node\')
    .attr(\'r\', 10)
    .style("fill", d => d._children ? utils.colors[1] : "#fff");

  const nodeExit = node.exit().transition()
    .duration(500)
    .attr("transform", d => `translate(${source.y},${source.x})`)
    .remove();

  nodeExit.select(\'circle\')
    .attr(\'r\', 1e-6);

  const link = g.selectAll(\'path.link\')
    .data(links, d => d.id);

  const linkEnter = link.enter().insert(\'path\', "g")
    .attr("class", "link")
    .attr(\'d\', d => {
      const o = {x: source.x0, y: source.y0};
      return diagonal(o, o);
    })
    .style("fill", "none")
    .style("stroke", "#ccc")
    .style("stroke-width", "2px");

  const linkUpdate = linkEnter.merge(link);

  linkUpdate.transition()
    .duration(500)
    .attr(\'d\', d => diagonal(d, d.parent));

  link.exit().transition()
    .duration(500)
    .attr(\'d\', d => {
      const o = {x: source.x, y: source.y};
      return diagonal(o, o);
    })
    .remove();

  nodes.forEach(d => {
    d.x0 = d.x;
    d.y0 = d.y;
  });

  function diagonal(s, d) {
    const path = `M ${s.y} ${s.x}
              C ${(s.y + d.y) / 2} ${s.x},
                ${(s.y + d.y) / 2} ${d.x},
                ${d.y} ${d.x}`;
    return path;
  }

  function click(event, d) {
    if (d.children) {
      d._children = d.children;
      d.children = null;
    } else {
      d.children = d._children;
      d._children = null;
    }
    update(d);
  }
}''\<close>

definition tpl_brush_zoom_chart :: string where
  \<open>tpl_brush_zoom_chart = ''const data = Array.from({length: 100}, (_, i) => ({
  x: i,
  y: Math.sin(i * 0.1) * 50 + Math.random() * 20 + 100
}));

const margin = utils.margin();
const innerWidth = width - margin.left - margin.right;
const innerHeight = height - margin.top - margin.bottom;

const svg = d3.select(container)
  .append("svg")
  .attr("width", width)
  .attr("height", height);

const clip = svg.append("defs").append("clipPath")
  .attr("id", "clip")
  .append("rect")
  .attr("width", innerWidth)
  .attr("height", innerHeight);

const g = svg.append("g")
  .attr("transform", `translate(${margin.left},${margin.top})`);

const x = d3.scaleLinear()
  .domain(d3.extent(data, d => d.x))
  .range([0, innerWidth]);

const y = d3.scaleLinear()
  .domain(d3.extent(data, d => d.y))
  .range([innerHeight, 0]);

const xAxis = d3.axisBottom(x);
const yAxis = d3.axisLeft(y);

g.append("g")
  .attr("class", "axis axis--x")
  .attr("transform", `translate(0,${innerHeight})`)
  .call(xAxis);

g.append("g")
  .attr("class", "axis axis--y")
  .call(yAxis);

const line = d3.line()
  .x(d => x(d.x))
  .y(d => y(d.y));

g.append("path")
  .datum(data)
  .attr("class", "line")
  .attr("clip-path", "url(#clip)")
  .attr("d", line)
  .style("fill", "none")
  .style("stroke", utils.colors[0])
  .style("stroke-width", "2px");

const brush = d3.brushX()
  .extent([[0, 0], [innerWidth, innerHeight]])
  .on("brush end", brushed);

const zoom = d3.zoom()
  .scaleExtent([1, Infinity])
  .translateExtent([[0, 0], [innerWidth, innerHeight]])
  .extent([[0, 0], [innerWidth, innerHeight]])
  .on("zoom", zoomed);

g.append("g")
  .attr("class", "brush")
  .call(brush);

svg.call(zoom);

function brushed(event) {
  if (event.defaultPrevented) return;
  const s = event.selection || x.range();
  x.domain(s.map(x.invert, x));
  g.select(".line").attr("d", line);
  g.select(".axis--x").call(xAxis);
  svg.select(".zoom").call(zoom.transform, d3.zoomIdentity
    .scale(innerWidth / (s[1] - s[0]))
    .translate(-s[0], 0));
}

function zoomed(event) {
  if (event.defaultPrevented) return;
  const t = event.transform;
  x.domain(t.rescaleX(x).domain());
  g.select(".line").attr("d", line);
  g.select(".axis--x").call(xAxis);
  g.select(".brush").call(brush.move, x.range().map(t.invertX, t));
}''\<close>

definition tpl_choropleth_map :: string where
  \<open>tpl_choropleth_map = ''// Sample geographic data - replace with your own GeoJSON
const data = [
  {id: "US-AL", value: 4779736},
  {id: "US-AK", value: 710231},
  {id: "US-AZ", value: 6392017},
  {id: "US-AR", value: 2915918},
  {id: "US-CA", value: 37253956}
];

const svg = d3.select(container)
  .append("svg")
  .attr("width", width)
  .attr("height", height);

const projection = d3.geoAlbersUsa()
  .scale(width * 0.8)
  .translate([width / 2, height / 2]);

const path = d3.geoPath()
  .projection(projection);

const colorScale = d3.scaleSequential()
  .interpolator(d3.interpolateBlues)
  .domain(d3.extent(data, d => d.value));

// Note: This is a template - you need to load actual GeoJSON data
svg.append("text")
  .attr("x", width / 2)
  .attr("y", height / 2)
  .attr("text-anchor", "middle")
  .style("font-size", "18px")
  .text("Choropleth Map Template");

svg.append("text")
  .attr("x", width / 2)
  .attr("y", height / 2 + 30)
  .attr("text-anchor", "middle")
  .style("font-size", "12px")
  .text("Load GeoJSON data to see map visualization");''\<close>

definition tpl_voronoi_diagram :: string where
  \<open>tpl_voronoi_diagram = ''const data = Array.from({length: 50}, () => [
  Math.random() * width,
  Math.random() * height
]);

const svg = d3.select(container)
  .append("svg")
  .attr("width", width)
  .attr("height", height);

const voronoi = d3.Delaunay
  .from(data)
  .voronoi([0, 0, width, height]);

svg.append("g")
  .selectAll("path")
  .data(data)
  .join("path")
  .attr("d", (d, i) => voronoi.renderCell(i))
  .attr("fill", (d, i) => utils.colors[i % utils.colors.length])
  .attr("fill-opacity", 0.3)
  .attr("stroke", "white")
  .attr("stroke-width", 1);

svg.append("g")
  .selectAll("circle")
  .data(data)
  .join("circle")
  .attr("cx", d => d[0])
  .attr("cy", d => d[1])
  .attr("r", 3)
  .attr("fill", "black");''\<close>

definition tpl_stacked_bar_chart :: string where
  \<open>tpl_stacked_bar_chart = ''const data = [
  {category: "A", series1: 20, series2: 15, series3: 10},
  {category: "B", series1: 25, series2: 20, series3: 15},
  {category: "C", series1: 15, series2: 25, series3: 20},
  {category: "D", series1: 30, series2: 10, series3: 25}
];

const margin = utils.margin();
const innerWidth = width - margin.left - margin.right;
const innerHeight = height - margin.top - margin.bottom;

const svg = d3.select(container)
  .append("svg")
  .attr("width", width)
  .attr("height", height);

const g = svg.append("g")
  .attr("transform", `translate(${margin.left},${margin.top})`);

const keys = ["series1", "series2", "series3"];

const stack = d3.stack()
  .keys(keys);

const stackedData = stack(data);

const x = d3.scaleBand()
  .domain(data.map(d => d.category))
  .range([0, innerWidth])
  .padding(0.1);

const y = d3.scaleLinear()
  .domain([0, d3.max(stackedData, d => d3.max(d, d => d[1]))])
  .range([innerHeight, 0]);

g.selectAll(".serie")
  .data(stackedData)
  .enter()
  .append("g")
  .attr("class", "serie")
  .attr("fill", (d, i) => utils.colors[i])
  .selectAll("rect")
  .data(d => d)
  .enter()
  .append("rect")
  .attr("x", d => x(d.data.category))
  .attr("y", d => y(d[1]))
  .attr("height", d => y(d[0]) - y(d[1]))
  .attr("width", x.bandwidth());

g.append("g")
  .attr("transform", `translate(0,${innerHeight})`)
  .call(d3.axisBottom(x));

g.append("g")
  .call(d3.axisLeft(y));''\<close>

definition tpl_cartogram :: string where
  \<open>tpl_cartogram = ''// Cartogram template - distorted map based on data
const data = [
  {name: "Region A", population: 5000000, area: 100},
  {name: "Region B", population: 3000000, area: 80},
  {name: "Region C", population: 8000000, area: 120},
  {name: "Region D", population: 2000000, area: 60}
];

const svg = d3.select(container)
  .append("svg")
  .attr("width", width)
  .attr("height", height);

// Simple rectangle-based cartogram
const maxPop = d3.max(data, d => d.population);
const totalArea = d3.sum(data, d => d.area);

let currentX = 20;
let currentY = 20;

data.forEach((d, i) => {
  const rectWidth = (d.population / maxPop) * (width / 3);
  const rectHeight = (d.area / totalArea) * (height / 2);
  
  svg.append("rect")
    .attr("x", currentX)
    .attr("y", currentY)
    .attr("width", rectWidth)
    .attr("height", rectHeight)
    .attr("fill", utils.colors[i])
    .attr("stroke", "white")
    .attr("stroke-width", 2);
  
  svg.append("text")
    .attr("x", currentX + rectWidth / 2)
    .attr("y", currentY + rectHeight / 2)
    .attr("text-anchor", "middle")
    .attr("dy", "0.35em")
    .style("font-size", "12px")
    .style("fill", "white")
    .text(d.name);
  
  currentX += rectWidth + 10;
  if (currentX > width - rectWidth) {
    currentX = 20;
    currentY += rectHeight + 20;
  }
});

svg.append("text")
  .attr("x", 20)
  .attr("y", height - 40)
  .style("font-size", "14px")
  .style("font-weight", "bold")
  .text("Population-based Cartogram");''\<close>

definition tpl_reusable_line_chart :: string where
  \<open>tpl_reusable_line_chart = ''// Reusable line chart with configurable options
function createLineChart() {
  let margin = {top: 20, right: 20, bottom: 50, left: 40};
  let width = 600;
  let height = 400;
  let xValue = d => d.x;
  let yValue = d => d.y;
  
  function chart(selection) {
    selection.each(function(data) {
      const innerWidth = width - margin.left - margin.right;
      const innerHeight = height - margin.top - margin.bottom;
      
      const svg = d3.select(this)
        .selectAll("svg")
        .data([data]);
      
      const svgEnter = svg.enter().append("svg");
      
      svg.merge(svgEnter)
        .attr("width", width)
        .attr("height", height);
      
      const g = svgEnter.append("g")
        .attr("transform", `translate(${margin.left},${margin.top})`);
      
      const x = d3.scaleLinear()
        .domain(d3.extent(data, xValue))
        .range([0, innerWidth]);
      
      const y = d3.scaleLinear()
        .domain(d3.extent(data, yValue))
        .range([innerHeight, 0]);
      
      const line = d3.line()
        .x(d => x(xValue(d)))
        .y(d => y(yValue(d)));
      
      g.append("g")
        .attr("transform", `translate(0,${innerHeight})`)
        .call(d3.axisBottom(x));
      
      g.append("g")
        .call(d3.axisLeft(y));
      
      g.append("path")
        .datum(data)
        .attr("d", line)
        .style("fill", "none")
        .style("stroke", "steelblue")
        .style("stroke-width", 2);
    });
  }
  
  chart.margin = function(_) {
    if (!arguments.length) return margin;
    margin = _;
    return chart;
  };
  
  chart.width = function(_) {
    if (!arguments.length) return width;
    width = _;
    return chart;
  };
  
  chart.height = function(_) {
    if (!arguments.length) return height;
    height = _;
    return chart;
  };
  
  return chart;
}

// Usage
const data = Array.from({length: 20}, (_, i) => ({
  x: i,
  y: Math.sin(i * 0.3) * 50 + 100 + Math.random() * 20
}));

const lineChart = createLineChart()
  .width(width)
  .height(height);

d3.select(container).datum(data).call(lineChart);''\<close>

definition tpl_math_visualization :: string where
  \<open>tpl_math_visualization = ''// Mathematical visualization - Prime Number Spiral
const svg = d3.select(container)
  .append("svg")
  .attr("width", width)
  .attr("height", height);

const centerX = width / 2;
const centerY = height / 2;
const maxRadius = Math.min(width, height) / 3;

function isPrime(n) {
  if (n < 2) return false;
  for (let i = 2; i <= Math.sqrt(n); i++) {
    if (n % i === 0) return false;
  }
  return true;
}

// Create spiral of numbers, highlighting primes
const numbers = Array.from({length: 200}, (_, i) => i + 1);

numbers.forEach((num, i) => {
  const angle = i * 0.3;
  const radius = (i / numbers.length) * maxRadius;
  const x = centerX + Math.cos(angle) * radius;
  const y = centerY + Math.sin(angle) * radius;
  
  svg.append("circle")
    .attr("cx", x)
    .attr("cy", y)
    .attr("r", isPrime(num) ? 4 : 2)
    .attr("fill", isPrime(num) ? utils.colors[1] : utils.colors[0])
    .attr("opacity", isPrime(num) ? 1 : 0.3);
  
  if (isPrime(num) && num < 50) {
    svg.append("text")
      .attr("x", x)
      .attr("y", y - 8)
      .attr("text-anchor", "middle")
      .style("font-size", "10px")
      .style("fill", "black")
      .text(num);
  }
});

svg.append("text")
  .attr("x", centerX)
  .attr("y", 30)
  .attr("text-anchor", "middle")
  .style("font-size", "16px")
  .style("font-weight", "bold")
  .text("Prime Number Spiral");''\<close>

definition tpl_experiment_vis :: string where
  \<open>tpl_experiment_vis = ''// Experimental visualization - Particle System
const svg = d3.select(container)
  .append("svg")
  .attr("width", width)
  .attr("height", height);

const particles = Array.from({length: 100}, (_, i) => ({
  id: i,
  x: Math.random() * width,
  y: Math.random() * height,
  vx: (Math.random() - 0.5) * 2,
  vy: (Math.random() - 0.5) * 2,
  radius: Math.random() * 5 + 2,
  color: utils.colors[Math.floor(Math.random() * utils.colors.length)]
}));

const nodes = svg.selectAll("circle")
  .data(particles)
  .enter()
  .append("circle")
  .attr("r", d => d.radius)
  .attr("fill", d => d.color)
  .attr("opacity", 0.7);

function updateParticles() {
  particles.forEach(p => {
    p.x += p.vx;
    p.y += p.vy;
    
    // Bounce off walls
    if (p.x < p.radius || p.x > width - p.radius) p.vx *= -0.8;
    if (p.y < p.radius || p.y > height - p.radius) p.vy *= -0.8;
    
    // Keep in bounds
    p.x = Math.max(p.radius, Math.min(width - p.radius, p.x));
    p.y = Math.max(p.radius, Math.min(height - p.radius, p.y));
  });
  
  nodes
    .attr("cx", d => d.x)
    .attr("cy", d => d.y);
}

// Animate particles
const timer = d3.timer(updateParticles);

// Stop animation after 10 seconds
setTimeout(() => timer.stop(), 10000);''\<close>

definition tpl_axis_demo :: string where
  \<open>tpl_axis_demo = ''// Interactive axis demonstration
const margin = utils.margin(40, 40, 60, 60);
const innerWidth = width - margin.left - margin.right;
const innerHeight = height - margin.top - margin.bottom;

const svg = d3.select(container)
  .append("svg")
  .attr("width", width)
  .attr("height", height);

const g = svg.append("g")
  .attr("transform", `translate(${margin.left},${margin.top})`);

// Create different types of scales and axes
const xScales = {
  linear: d3.scaleLinear().domain([0, 100]).range([0, innerWidth]),
  time: d3.scaleTime()
    .domain([new Date(2020, 0, 1), new Date(2024, 0, 1)])
    .range([0, innerWidth]),
  ordinal: d3.scaleBand()
    .domain([\'A\', \'B\', \'C\', \'D\', \'E\'])
    .range([0, innerWidth])
    .padding(0.1)
};

const yScales = {
  linear: d3.scaleLinear().domain([0, 50]).range([innerHeight, 0]),
  log: d3.scaleLog().domain([1, 1000]).range([innerHeight, 0])
};

// Linear X and Y axes
g.append("g")
  .attr("transform", `translate(0,${innerHeight})`)
  .call(d3.axisBottom(xScales.linear))
  .append("text")
  .attr("x", innerWidth / 2)
  .attr("y", 40)
  .style("text-anchor", "middle")
  .style("fill", "black")
  .text("Linear Scale");

g.append("g")
  .call(d3.axisLeft(yScales.linear))
  .append("text")
  .attr("transform", "rotate(-90)")
  .attr("y", -40)
  .attr("x", -innerHeight / 2)
  .style("text-anchor", "middle")
  .style("fill", "black")
  .text("Linear Y Scale");

// Grid lines
g.append("g")
  .attr("class", "grid")
  .attr("transform", `translate(0,${innerHeight})`)
  .call(d3.axisBottom(xScales.linear)
    .tickSize(-innerHeight)
    .tickFormat("")
  )
  .style("stroke-dasharray", "3,3")
  .style("opacity", 0.3);

g.append("g")
  .attr("class", "grid")
  .call(d3.axisLeft(yScales.linear)
    .tickSize(-innerWidth)
    .tickFormat("")
  )
  .style("stroke-dasharray", "3,3")
  .style("opacity", 0.3);''\<close>

text \<open>
  \<^verbatim>\<open>getTemplates()[key]\<close> for a key that is a chart kind or any other text that is
  not a property of every object.
\<close>

definition getTemplates :: "string \<Rightarrow> string option" where
  "getTemplates key =
     (if key = ''basic'' then Some tpl_basic else
      if key = ''bar-chart'' then Some tpl_bar_chart else
      if key = ''horizontal-bar'' then Some tpl_horizontal_bar else
      if key = ''scatter-plot'' then Some tpl_scatter_plot else
      if key = ''line-chart'' then Some tpl_line_chart else
      if key = ''area-chart'' then Some tpl_area_chart else
      if key = ''bubble-chart'' then Some tpl_bubble_chart else
      if key = ''pie-chart'' then Some tpl_pie_chart else
      if key = ''donut-chart'' then Some tpl_donut_chart else
      if key = ''histogram'' then Some tpl_histogram else
      if key = ''heatmap'' then Some tpl_heatmap else
      if key = ''force-network'' then Some tpl_force_network else
      if key = ''tree'' then Some tpl_tree else
      if key = ''treemap'' then Some tpl_treemap else
      if key = ''timeline'' then Some tpl_timeline else
      if key = ''radar'' then Some tpl_radar else
      if key = ''sankey'' then Some tpl_sankey else
      if key = ''candlestick'' then Some tpl_candlestick else
      if key = ''box-plot'' then Some tpl_box_plot else
      if key = ''violin-plot'' then Some tpl_violin_plot else
      if key = ''chord'' then Some tpl_chord else
      if key = ''sunburst'' then Some tpl_sunburst else
      if key = ''gantt'' then Some tpl_gantt else
      if key = ''parallel'' then Some tpl_parallel else
      if key = ''streamgraph'' then Some tpl_streamgraph else
      if key = ''circle-packing'' then Some tpl_circle_packing else
      if key = ''force-directed-graph'' then Some tpl_force_directed_graph else
      if key = ''zoomable-circle-packing'' then Some tpl_zoomable_circle_packing else
      if key = ''chord-diagram'' then Some tpl_chord_diagram else
      if key = ''collapsible-tree'' then Some tpl_collapsible_tree else
      if key = ''brush-zoom-chart'' then Some tpl_brush_zoom_chart else
      if key = ''choropleth-map'' then Some tpl_choropleth_map else
      if key = ''voronoi-diagram'' then Some tpl_voronoi_diagram else
      if key = ''stacked-bar-chart'' then Some tpl_stacked_bar_chart else
      if key = ''cartogram'' then Some tpl_cartogram else
      if key = ''reusable-line-chart'' then Some tpl_reusable_line_chart else
      if key = ''math-visualization'' then Some tpl_math_visualization else
      if key = ''experiment-vis'' then Some tpl_experiment_vis else
      if key = ''axis-demo'' then Some tpl_axis_demo else
      None)"

definition custom_bar_chart :: "string \<Rightarrow> string \<Rightarrow> string \<Rightarrow> string \<Rightarrow> string" where
  \<open>custom_bar_chart w h ds col = ''
const margin = {top: 20, right: 20, bottom: 50, left: 40};
const innerWidth = '' @ w @ '' - margin.left - margin.right;
const innerHeight = '' @ h @ '' - margin.top - margin.bottom;

const data = '' @ ds @ '';

const svg = d3.select(container)
  .append(\'svg\')
  .attr(\'width\', '' @ w @ '')
  .attr(\'height\', '' @ h @ '');

const g = svg.append(\'g\')
  .attr(\'transform\', `translate(${margin.left},${margin.top})`);

const x = d3.scaleBand()
  .domain(data.map(d => d.label))
  .range([0, innerWidth])
  .padding(0.1);

const y = d3.scaleLinear()
  .domain([0, d3.max(data, d => d.value)])
  .range([innerHeight, 0]);

g.selectAll(\'.bar\')
  .data(data)
  .enter().append(\'rect\')
  .attr(\'class\', \'bar\')
  .attr(\'x\', d => x(d.label))
  .attr(\'y\', d => y(d.value))
  .attr(\'width\', x.bandwidth())
  .attr(\'height\', d => innerHeight - y(d.value))
  .attr(\'fill\', '' @ [squote] @ col @ [squote] @ '');

g.append(\'g\')
  .attr(\'class\', \'axis axis--x\')
  .attr(\'transform\', `translate(0,${innerHeight})`)
  .call(d3.axisBottom(x));

g.append(\'g\')
  .attr(\'class\', \'axis axis--y\')
  .call(d3.axisLeft(y));
'' @ [CHR 0x09, CHR 0x09, CHR 0x09]\<close>

definition custom_line_chart :: "string \<Rightarrow> string \<Rightarrow> string \<Rightarrow> string \<Rightarrow> string" where
  \<open>custom_line_chart w h ds col = ''
const margin = {top: 20, right: 20, bottom: 50, left: 40};
const innerWidth = '' @ w @ '' - margin.left - margin.right;
const innerHeight = '' @ h @ '' - margin.top - margin.bottom;

const data = '' @ ds @ '';

const svg = d3.select(container)
  .append(\'svg\')
  .attr(\'width\', '' @ w @ '')
  .attr(\'height\', '' @ h @ '');

const g = svg.append(\'g\')
  .attr(\'transform\', `translate(${margin.left},${margin.top})`);

const x = d3.scaleLinear()
  .domain(d3.extent(data, (d, i) => i))
  .range([0, innerWidth]);

const y = d3.scaleLinear()
  .domain(d3.extent(data, d => d.value))
  .range([innerHeight, 0]);

const line = d3.line()
  .x((d, i) => x(i))
  .y(d => y(d.value))
  .curve(d3.curveMonotoneX);

g.append(\'path\')
  .datum(data)
  .attr(\'fill\', \'none\')
  .attr(\'stroke\', '' @ [squote] @ col @ [squote] @ '')
  .attr(\'stroke-width\', 2)
  .attr(\'d\', line);

g.selectAll(\'.dot\')
  .data(data)
  .enter().append(\'circle\')
  .attr(\'class\', \'dot\')
  .attr(\'cx\', (d, i) => x(i))
  .attr(\'cy\', d => y(d.value))
  .attr(\'r\', 4)
  .attr(\'fill\', '' @ [squote] @ col @ [squote] @ '');

g.append(\'g\')
  .attr(\'transform\', `translate(0,${innerHeight})`)
  .call(d3.axisBottom(x));

g.append(\'g\')
  .call(d3.axisLeft(y));
'' @ [CHR 0x09, CHR 0x09, CHR 0x09]\<close>

definition custom_pie_chart :: "string \<Rightarrow> string \<Rightarrow> string \<Rightarrow> string \<Rightarrow> string" where
  \<open>custom_pie_chart w h ds col = ''
const radius = Math.min('' @ w @ '', '' @ h @ '') / 2 - 20;
const data = '' @ ds @ '';

const svg = d3.select(container)
  .append(\'svg\')
  .attr(\'width\', '' @ w @ '')
  .attr(\'height\', '' @ h @ '');

const g = svg.append(\'g\')
  .attr(\'transform\', `translate(${'' @ w @ ''/2},${'' @ h @ ''/2})`);

const color = d3.scaleOrdinal(d3.schemeCategory10);

const pie = d3.pie()
  .value(d => d.value);

const arc = d3.arc()
  .innerRadius(0)
  .outerRadius(radius);

const arcs = g.selectAll(\'.arc\')
  .data(pie(data))
  .enter().append(\'g\')
  .attr(\'class\', \'arc\');

arcs.append(\'path\')
  .attr(\'d\', arc)
  .attr(\'fill\', (d, i) => color(i));

arcs.append(\'text\')
  .attr(\'transform\', d => `translate(${arc.centroid(d)})`)
  .attr(\'text-anchor\', \'middle\')
  .text(d => d.data.label);
'' @ [CHR 0x09, CHR 0x09, CHR 0x09]\<close>

definition custom_scatter_plot :: "string \<Rightarrow> string \<Rightarrow> string \<Rightarrow> string \<Rightarrow> string" where
  \<open>custom_scatter_plot w h ds col = ''
const margin = {top: 20, right: 20, bottom: 50, left: 40};
const innerWidth = '' @ w @ '' - margin.left - margin.right;
const innerHeight = '' @ h @ '' - margin.top - margin.bottom;

const data = '' @ ds @ '';

const svg = d3.select(container)
  .append(\'svg\')
  .attr(\'width\', '' @ w @ '')
  .attr(\'height\', '' @ h @ '');

const g = svg.append(\'g\')
  .attr(\'transform\', `translate(${margin.left},${margin.top})`);

const x = d3.scaleLinear()
  .domain(d3.extent(data, (d, i) => i))
  .range([0, innerWidth]);

const y = d3.scaleLinear()
  .domain(d3.extent(data, d => d.value))
  .range([innerHeight, 0]);

g.selectAll(\'.dot\')
  .data(data)
  .enter().append(\'circle\')
  .attr(\'class\', \'dot\')
  .attr(\'cx\', (d, i) => x(i))
  .attr(\'cy\', d => y(d.value))
  .attr(\'r\', 6)
  .attr(\'fill\', '' @ [squote] @ col @ [squote] @ '')
  .attr(\'opacity\', 0.7);

g.append(\'g\')
  .attr(\'transform\', `translate(0,${innerHeight})`)
  .call(d3.axisBottom(x));

g.append(\'g\')
  .call(d3.axisLeft(y));
'' @ [CHR 0x09, CHR 0x09, CHR 0x09]\<close>

definition custom_area_chart :: "string \<Rightarrow> string \<Rightarrow> string \<Rightarrow> string \<Rightarrow> string" where
  \<open>custom_area_chart w h ds col = ''
const margin = {top: 20, right: 20, bottom: 50, left: 40};
const innerWidth = '' @ w @ '' - margin.left - margin.right;
const innerHeight = '' @ h @ '' - margin.top - margin.bottom;

const data = '' @ ds @ '';

const svg = d3.select(container)
  .append(\'svg\')
  .attr(\'width\', '' @ w @ '')
  .attr(\'height\', '' @ h @ '');

const g = svg.append(\'g\')
  .attr(\'transform\', `translate(${margin.left},${margin.top})`);

const x = d3.scaleLinear()
  .domain(d3.extent(data, (d, i) => i))
  .range([0, innerWidth]);

const y = d3.scaleLinear()
  .domain([0, d3.max(data, d => d.value)])
  .range([innerHeight, 0]);

const area = d3.area()
  .x((d, i) => x(i))
  .y0(innerHeight)
  .y1(d => y(d.value))
  .curve(d3.curveMonotoneX);

g.append(\'path\')
  .datum(data)
  .attr(\'fill\', '' @ [squote] @ col @ [squote] @ '')
  .attr(\'opacity\', 0.7)
  .attr(\'d\', area);

g.append(\'g\')
  .attr(\'transform\', `translate(0,${innerHeight})`)
  .call(d3.axisBottom(x));

g.append(\'g\')
  .call(d3.axisLeft(y));
'' @ [CHR 0x09, CHR 0x09, CHR 0x09]\<close>

section \<open>generateFinalCode\<close>

text \<open>\<^verbatim>\<open>/const data = \[\s*\{[^}]*name[^}]*\}[\s\S]*?\];/\<close>\<close>

definition re_template_data :: regex where
  "re_template_data =
     seqs [lit ''const data = ['', Star cls_space, lit ''{'', Star (none_of ''}''), lit ''name'',
           Star (none_of ''}''), lit ''}'', LazyStar cls_any, lit ''];'']"

text \<open>\<^verbatim>\<open>/(?:width|height)\s*=\s*\d+/g\<close>\<close>

definition re_dimension :: regex where
  "re_dimension =
     seqs [Alt (lit ''width'') (lit ''height''), Star cls_space, lit ''='', Star cls_space,
           Plus cls_digit]"

text \<open>\<^verbatim>\<open>/utils\.colors\[0\]/g\<close>\<close>

definition re_colors0 :: regex where
  "re_colors0 = lit ''utils.colors[0]''"

text \<open>\<^verbatim>\<open>/\.style\("fill",\s*"steelblue"\)/g\<close>\<close>

definition re_fill_steelblue :: regex where
  \<open>re_fill_steelblue = seqs [lit ''.style("fill",'', Star cls_space, lit ''"steelblue")'']\<close>

definition templateOnlyTypes :: "string list" where
  "templateOnlyTypes =
     [''histogram'', ''heatmap'', ''timeline'', ''radar'', ''box-plot'', ''bubble-chart'',
      ''stacked-bar-chart'']"

definition simpleDataTypes :: "string list" where
  "simpleDataTypes = [''bar-chart'', ''horizontal-bar'', ''pie-chart'', ''donut-chart'']"

text \<open>A number in a template literal, \<^verbatim>\<open>${width}\<close>.\<close>

definition show_int :: "int \<Rightarrow> string" where
  "show_int i = num_to_string (Dec i 0)"

text \<open>The callback of the dimension replacement.\<close>

definition dimension_callback :: "int \<Rightarrow> int \<Rightarrow> rx_match \<Rightarrow> string" where
  "dimension_callback w h m =
     (if str_includes (matched m) ''width'' then ''width = '' @ show_int w
      else if str_includes (matched m) ''height'' then ''height = '' @ show_int h
      else matched m)"

text \<open>
  Lines 4563 to 4591: the branch for a chart type that has a template.
\<close>

definition fill_template :: "string \<Rightarrow> string \<Rightarrow> json list \<Rightarrow> int \<Rightarrow> int \<Rightarrow> string \<Rightarrow> string" where
  \<open>fill_template ty tpl d w h col =
     (let t1 = (if ty \<notin> set templateOnlyTypes \<and> length d > 0 \<and> ty \<in> set simpleDataTypes
                then replace_first re_template_data
                       (substitution (''const data = '' @ json_stringify (JArr d) @ '';'')) tpl
                else tpl);
          t2 = replace_all re_dimension (dimension_callback w h) t1
      in if startsWith col ''#''
         then replace_all re_fill_steelblue (substitution (''.style("fill", "'' @ col @ ''")''))
                (replace_all re_colors0 (substitution ([dquote] @ col @ [dquote])) t2)
         else t2)\<close>

text \<open>
  \<^verbatim>\<open>generateFinalCode\<close>. A width or height of zero and an empty colour are falsy and
  give way to the defaults. Without a template the five basic types are generated
  from scratch.
\<close>

definition generateFinalCode :: "editor \<Rightarrow> string" where
  "generateFinalCode ed =
     (let d = data (parsedData ed);
          w = (if width (parsedData ed) = 0 then 600 else width (parsedData ed));
          h = (if height (parsedData ed) = 0 then 400 else height (parsedData ed));
          col = (if color (parsedData ed) = [] then ''steelblue'' else color (parsedData ed));
          ty = currentVisualizationType ed
      in (case getTemplates ty of
            Some tpl \<Rightarrow> fill_template ty tpl d w h col
          | None \<Rightarrow>
              if ty = ''bar-chart'' then custom_bar_chart (show_int w) (show_int h) (json_stringify (JArr d)) col
              else if ty = ''line-chart'' then custom_line_chart (show_int w) (show_int h) (json_stringify (JArr d)) col
              else if ty = ''pie-chart'' then custom_pie_chart (show_int w) (show_int h) (json_stringify (JArr d)) col
              else if ty = ''scatter-plot'' then custom_scatter_plot (show_int w) (show_int h) (json_stringify (JArr d)) col
              else if ty = ''area-chart'' then custom_area_chart (show_int w) (show_int h) (json_stringify (JArr d)) col
              else ''// Chart type not implemented yet''))"

section \<open>Evaluation\<close>

text \<open>
  The scans over a text are evaluated by rewriting. The equations below decide each
  test before the recursive call is unfolded, so that a scan takes a number of steps
  that is linear in the text. The functions they introduce only name the case
  distinctions of the definitions.
\<close>

definition orelse :: "(string \<times> string option) option \<Rightarrow> frame list \<Rightarrow> string \<Rightarrow> string option \<Rightarrow> (string \<times> string option) option" where
  "orelse r k s c = (case r of Some x \<Rightarrow> Some x | None \<Rightarrow> rmatch k s c)"

definition guard :: "bool \<Rightarrow> frame list \<Rightarrow> string \<Rightarrow> string option \<Rightarrow> (string \<times> string option) option" where
  "guard b k s c = (if b then rmatch k s c else None)"

definition star_step :: "bool \<Rightarrow> (char \<Rightarrow> bool) \<Rightarrow> frame list \<Rightarrow> char \<Rightarrow> string \<Rightarrow> string option \<Rightarrow> (string \<times> string option) option" where
  "star_step b p k x xs c =
     (if b then orelse (rmatch (Re (Star p) # k) xs c) k (x # xs) c else rmatch k (x # xs) c)"

definition lazy_step :: "(string \<times> string option) option \<Rightarrow> (char \<Rightarrow> bool) \<Rightarrow> frame list \<Rightarrow> string \<Rightarrow> string option \<Rightarrow> (string \<times> string option) option" where
  "lazy_step r p k s c =
     (case r of
        Some x \<Rightarrow> Some x
      | None \<Rightarrow> (case s of [] \<Rightarrow> None | x # xs \<Rightarrow> guard (p x) (Re (LazyStar p) # k) xs c))"

definition rs_step :: "(string \<times> string option) option \<Rightarrow> regex \<Rightarrow> string \<Rightarrow> string \<Rightarrow> rx_match option" where
  "rs_step res r pre s =
     (case res of
        Some (rest, g) \<Rightarrow>
          Some \<lparr>before = rev pre, matched = take (length s - length rest) s, after = rest, group1 = g\<rparr>
      | None \<Rightarrow> (case s of [] \<Rightarrow> None | x # xs \<Rightarrow> rsearch_from r (x # pre) xs))"

definition ma_step :: "(string \<times> string option) option \<Rightarrow> regex \<Rightarrow> string \<Rightarrow> string list" where
  "ma_step res r s =
     (case res of
        Some (rest, g) \<Rightarrow>
          if length rest < length s then take (length s - length rest) s # match_all r rest
          else (case s of [] \<Rightarrow> [[]] | x # xs \<Rightarrow> [] # match_all r xs)
      | None \<Rightarrow> (case s of [] \<Rightarrow> [] | x # xs \<Rightarrow> match_all r xs))"

definition ra_found :: "bool \<Rightarrow> rx_match \<Rightarrow> regex \<Rightarrow> (rx_match \<Rightarrow> string) \<Rightarrow> string \<Rightarrow> string \<Rightarrow> string" where
  "ra_found b m r f pre s =
     (if b then f m @ replace_all_from r f (rev (matched m) @ pre) (after m)
      else (case s of [] \<Rightarrow> f m | x # xs \<Rightarrow> f m @ x # replace_all_from r f (x # pre) xs))"

definition ra_step :: "(string \<times> string option) option \<Rightarrow> regex \<Rightarrow> (rx_match \<Rightarrow> string) \<Rightarrow> string \<Rightarrow> string \<Rightarrow> string" where
  "ra_step res r f pre s =
     (case res of
        Some (rest, g) \<Rightarrow>
          ra_found (length rest < length s)
            \<lparr>before = rev pre, matched = take (length s - length rest) s, after = rest, group1 = g\<rparr>
            r f pre s
      | None \<Rightarrow> (case s of [] \<Rightarrow> [] | x # xs \<Rightarrow> x # replace_all_from r f (x # pre) xs))"

definition inc_step :: "bool \<Rightarrow> string \<Rightarrow> string \<Rightarrow> bool" where
  "inc_step b xs w = (b \<or> str_includes xs w)"

lemma rmatch_eval:
  "rmatch [] s c = Some (s, c)"
  "rmatch (Re (Chr p) # k) [] c = None"
  "rmatch (Re (Chr p) # k) (x # xs) c = guard (p x) k xs c"
  "rmatch (Re Eps # k) s c = rmatch k s c"
  "rmatch (Re (Seq a b) # k) s c = rmatch (Re a # Re b # k) s c"
  "rmatch (Re (Alt a b) # k) s c = orelse (rmatch (Re a # k) s c) (Re b # k) s c"
  "rmatch (Re (Star p) # k) [] c = rmatch k [] c"
  "rmatch (Re (Star p) # k) (x # xs) c = star_step (p x) p k x xs c"
  "rmatch (Re (LazyStar p) # k) s c = lazy_step (rmatch k s c) p k s c"
  "rmatch (Re (Group a) # k) s c = rmatch (Re a # EndGroup s # k) s c"
  "rmatch (EndGroup s0 # k) s c = rmatch k s (Some (take (length s0 - length s) s0))"
  "orelse (Some y) k s c = Some y"
  "orelse None k s c = rmatch k s c"
  "guard True k s c = rmatch k s c"
  "guard False k s c = None"
  "star_step True p k x xs c = orelse (rmatch (Re (Star p) # k) xs c) k (x # xs) c"
  "star_step False p k x xs c = rmatch k (x # xs) c"
  "lazy_step (Some y) p k s c = Some y"
  "lazy_step None p k [] c = None"
  "lazy_step None p k (x # xs) c = guard (p x) (Re (LazyStar p) # k) xs c"
  by (simp_all add: orelse_def guard_def star_step_def lazy_step_def
      split: option.splits list.splits)

lemma rsearch_eval:
  "rsearch r s = rsearch_from r [] s"
  "rsearch_from r pre s = rs_step (rmatch [Re r] s None) r pre s"
  "rs_step (Some (rest, g)) r pre s =
     Some \<lparr>before = rev pre, matched = take (length s - length rest) s, after = rest, group1 = g\<rparr>"
  "rs_step None r pre [] = None"
  "rs_step None r pre (x # xs) = rsearch_from r (x # pre) xs"
proof -
  show "rsearch_from r pre s = rs_step (rmatch [Re r] s None) r pre s"
    by (subst rsearch_from.simps) (simp add: rs_step_def del: rsearch_from.simps)
qed (simp_all add: rsearch_def rs_step_def del: rsearch_from.simps)

lemma match_all_eval:
  "match_all r s = ma_step (rmatch [Re r] s None) r s"
  "ma_step None r [] = []"
  "ma_step None r (x # xs) = match_all r xs"
  "ma_step (Some (rest, g)) r s =
     (if length rest < length s then take (length s - length rest) s # match_all r rest
      else (case s of [] \<Rightarrow> [[]] | x # xs \<Rightarrow> [] # match_all r xs))"
proof -
  show "match_all r s = ma_step (rmatch [Re r] s None) r s"
    by (subst match_all.simps) (simp add: ma_step_def del: match_all.simps)
qed (simp_all add: ma_step_def del: match_all.simps)

lemma replace_all_eval:
  "replace_all r f s = replace_all_from r f [] s"
  "replace_all_from r f pre s = ra_step (rmatch [Re r] s None) r f pre s"
  "ra_step None r f pre [] = []"
  "ra_step None r f pre (x # xs) = x # replace_all_from r f (x # pre) xs"
  "ra_step (Some (rest, g)) r f pre s =
     ra_found (length rest < length s)
       \<lparr>before = rev pre, matched = take (length s - length rest) s, after = rest, group1 = g\<rparr>
       r f pre s"
  "ra_found True m r f pre s = f m @ replace_all_from r f (rev (matched m) @ pre) (after m)"
  "ra_found False m r f pre [] = f m"
  "ra_found False m r f pre (x # xs) = f m @ x # replace_all_from r f (x # pre) xs"
proof -
  show "replace_all_from r f pre s = ra_step (rmatch [Re r] s None) r f pre s"
    by (subst replace_all_from.simps)
       (simp add: ra_step_def ra_found_def Let_def del: replace_all_from.simps
          split: option.splits list.splits)
qed (simp_all add: replace_all_def ra_step_def ra_found_def del: replace_all_from.simps)

lemma str_includes_eval:
  "str_includes [] w = (w = [])"
  "str_includes (x # xs) w = inc_step (prefix w (x # xs)) xs w"
  "inc_step True xs w = True"
  "inc_step False xs w = str_includes xs w"
  by (simp_all add: inc_step_def)

declare rmatch.simps [simp del]
declare rsearch_from.simps [simp del]
declare match_all.simps [simp del]
declare replace_all_from.simps [simp del]
declare str_includes.simps [simp del]

section \<open>Chart-type inference\<close>

text \<open>The tags that the cascade assigns.\<close>

definition detectable_types :: "string list" where
  "detectable_types =
     [''donut-chart'', ''pie-chart'', ''histogram'', ''heatmap'', ''timeline'', ''radar'', ''box-plot'',
      ''bubble-chart'', ''stacked-bar-chart'', ''horizontal-bar'', ''area-chart'', ''line-chart'',
      ''bar-chart'', ''scatter-plot'']"

text \<open>The cascade as a priority table: the conditions with their tags, first match first.\<close>

definition type_rules :: "((string \<Rightarrow> bool) \<times> string) list" where
  "type_rules =
     [(is_donut, ''donut-chart''), (is_pie, ''pie-chart''), (is_histogram, ''histogram''),
      (is_heatmap, ''heatmap''), (is_timeline, ''timeline''), (is_radar, ''radar''),
      (is_box_plot, ''box-plot''), (is_bubble, ''bubble-chart''), (is_stacked, ''stacked-bar-chart''),
      (is_horizontal_bar, ''horizontal-bar''), (is_area, ''area-chart''), (is_line, ''line-chart''),
      (is_bar, ''bar-chart''), (is_scatter, ''scatter-plot'')]"

lemmas type_conditions =
  is_donut_def is_pie_def is_histogram_def is_heatmap_def is_timeline_def is_radar_def
  is_box_plot_def is_bubble_def is_stacked_def is_horizontal_bar_def is_area_def is_line_def
  is_bar_def is_scatter_def appends_rect_def appends_circle_def appends_path_def

lemma parse_sets_type:
  "currentVisualizationType (snd (parseVisualizationData ed)) = detect_type (source ed)"
  by (simp add: parseVisualizationData_def parse_try_def Let_def)

text \<open>
  The tag of the first rule of a table whose condition holds, and the given default
  when none does.
\<close>

fun first_match :: "((string \<Rightarrow> bool) \<times> string) list \<Rightarrow> string \<Rightarrow> string \<Rightarrow> string" where
  "first_match [] code dflt = dflt"
| "first_match ((p, t) # rules) code dflt = (if p code then t else first_match rules code dflt)"

lemma detect_type_first_match:
  "detect_type code = first_match type_rules code (detect_by_element code)"
  by (simp add: detect_type_def type_rules_def)

text \<open>
  C4. For every source text the cascade yields one of the fourteen tags, and when none
  of its conditions holds and no \<^verbatim>\<open>rect\<close>, \<^verbatim>\<open>circle\<close> or \<^verbatim>\<open>path\<close> element is
  appended, the tag is \<^verbatim>\<open>bar-chart\<close>.
\<close>

theorem detect_type_closed:
  "detect_type code \<in> set detectable_types \<and>
   (\<not> is_donut code \<and> \<not> is_pie code \<and> \<not> is_histogram code \<and> \<not> is_heatmap code \<and>
    \<not> is_timeline code \<and> \<not> is_radar code \<and> \<not> is_box_plot code \<and> \<not> is_bubble code \<and>
    \<not> is_stacked code \<and> \<not> is_horizontal_bar code \<and> \<not> is_area code \<and> \<not> is_line code \<and>
    \<not> is_bar code \<and> \<not> is_scatter code \<and>
    \<not> appends_rect code \<and> \<not> appends_circle code \<and> \<not> appends_path code
    \<longrightarrow> detect_type code = ''bar-chart'')"
  by (simp add: detect_type_def detect_by_element_def detectable_types_def)

theorem detect_type_closed_witness:
  "detect_type ''svg.append(\"g\")'' \<in> set detectable_types \<and>
   detect_type ''svg.append(\"g\")'' = ''bar-chart''"
proof -
  have "\<not> is_donut ''svg.append(\"g\")'' \<and> \<not> is_pie ''svg.append(\"g\")'' \<and>
    \<not> is_histogram ''svg.append(\"g\")'' \<and> \<not> is_heatmap ''svg.append(\"g\")'' \<and>
    \<not> is_timeline ''svg.append(\"g\")'' \<and> \<not> is_radar ''svg.append(\"g\")'' \<and>
    \<not> is_box_plot ''svg.append(\"g\")'' \<and> \<not> is_bubble ''svg.append(\"g\")'' \<and>
    \<not> is_stacked ''svg.append(\"g\")'' \<and> \<not> is_horizontal_bar ''svg.append(\"g\")'' \<and>
    \<not> is_area ''svg.append(\"g\")'' \<and> \<not> is_line ''svg.append(\"g\")'' \<and>
    \<not> is_bar ''svg.append(\"g\")'' \<and> \<not> is_scatter ''svg.append(\"g\")'' \<and>
    \<not> appends_rect ''svg.append(\"g\")'' \<and> \<not> appends_circle ''svg.append(\"g\")'' \<and>
    \<not> appends_path ''svg.append(\"g\")''"
    by (simp add: type_conditions str_includes_eval)
  with detect_type_closed [of "''svg.append(\"g\")''"] show ?thesis
    by blast
qed

text \<open>
  C5, as amended. The conditions are tried in the order of the table \<open>type_rules\<close>,
  the donut condition before the pie condition and the stacking condition before the
  bar condition, and the tag is that of the first condition that holds. A text with
  \<^verbatim>\<open>innerRadius\<close> and \<^verbatim>\<open>d3.pie\<close> is a donut chart whatever else it contains; a text
  with \<^verbatim>\<open>stacked\<close> and \<^verbatim>\<open>scaleBand\<close> is a stacked bar chart when none of the eight
  conditions before the stacking condition holds.
\<close>

theorem detect_type_priority:
  "(str_includes a ''innerRadius'' \<and> str_includes a ''d3.pie'' \<longrightarrow> detect_type a = ''donut-chart'') \<and>
   (str_includes b ''stacked'' \<and> str_includes b ''scaleBand'' \<and>
    \<not> is_donut b \<and> \<not> is_pie b \<and> \<not> is_histogram b \<and> \<not> is_heatmap b \<and>
    \<not> is_timeline b \<and> \<not> is_radar b \<and> \<not> is_box_plot b \<and> \<not> is_bubble b
    \<longrightarrow> detect_type b = ''stacked-bar-chart'') \<and>
   detect_type c = first_match type_rules c (detect_by_element c)"
proof (intro conjI)
  show "str_includes a ''innerRadius'' \<and> str_includes a ''d3.pie'' \<longrightarrow> detect_type a = ''donut-chart''"
    by (simp add: detect_type_def is_donut_def)
  show "str_includes b ''stacked'' \<and> str_includes b ''scaleBand'' \<and>
    \<not> is_donut b \<and> \<not> is_pie b \<and> \<not> is_histogram b \<and> \<not> is_heatmap b \<and>
    \<not> is_timeline b \<and> \<not> is_radar b \<and> \<not> is_box_plot b \<and> \<not> is_bubble b
    \<longrightarrow> detect_type b = ''stacked-bar-chart''"
    by (simp add: detect_type_def is_stacked_def)
  show "detect_type c = first_match type_rules c (detect_by_element c)"
    by (rule detect_type_first_match)
qed

theorem detect_type_priority_witness:
  "detect_type ''innerRadius d3.pie'' = ''donut-chart'' \<and>
   is_bar ''stacked scaleBand'' \<and> detect_type ''stacked scaleBand'' = ''stacked-bar-chart''"
proof -
  have a: "str_includes ''innerRadius d3.pie'' ''innerRadius'' \<and>
      str_includes ''innerRadius d3.pie'' ''d3.pie''"
    by (simp add: str_includes_eval)
  have b: "str_includes ''stacked scaleBand'' ''stacked'' \<and>
      str_includes ''stacked scaleBand'' ''scaleBand'' \<and>
      \<not> is_donut ''stacked scaleBand'' \<and> \<not> is_pie ''stacked scaleBand'' \<and>
      \<not> is_histogram ''stacked scaleBand'' \<and> \<not> is_heatmap ''stacked scaleBand'' \<and>
      \<not> is_timeline ''stacked scaleBand'' \<and> \<not> is_radar ''stacked scaleBand'' \<and>
      \<not> is_box_plot ''stacked scaleBand'' \<and> \<not> is_bubble ''stacked scaleBand''"
    by (simp add: type_conditions str_includes_eval)
  have c: "is_bar ''stacked scaleBand''"
    by (simp add: is_bar_def str_includes_eval)
  from detect_type_priority [of "''innerRadius d3.pie''" "''stacked scaleBand''" "[]"] a b c
  show ?thesis
    by blast
qed

text \<open>
  The claim as it was stated fails: this text contains \<^verbatim>\<open>stacked\<close> and
  \<^verbatim>\<open>scaleBand\<close>, and the histogram condition, which comes earlier, decides.
\<close>

theorem detect_type_priority_counterexample:
  "str_includes ''stacked scaleBand bins'' ''stacked'' \<and>
   str_includes ''stacked scaleBand bins'' ''scaleBand'' \<and>
   detect_type ''stacked scaleBand bins'' = ''histogram''"
  by (simp add: detect_type_def type_conditions str_includes_eval)

text \<open>
  C10. A source text that contains \<^verbatim>\<open>events\<close> and meets none of the four conditions
  before the timeline condition is classified as a timeline.
\<close>

theorem events_is_timeline:
  assumes "str_includes (source ed) ''events''"
    and "\<not> is_donut (source ed)" and "\<not> is_pie (source ed)"
    and "\<not> is_histogram (source ed)" and "\<not> is_heatmap (source ed)"
  shows "currentVisualizationType (snd (parseVisualizationData ed)) = ''timeline''"
  using assms by (simp add: parse_sets_type detect_type_def is_timeline_def)

theorem events_is_timeline_witness:
  "currentVisualizationType (snd (parseVisualizationData (new_editor ''const events = [1];''))) = ''timeline''"
  by (rule events_is_timeline) (simp_all add: new_editor_def type_conditions str_includes_eval)

end
